theory Spec2Isabelle
  imports Main
begin

section \<open>Python values and exceptions\<close>

text \<open>
  The values that travel through the \<open>platforms\<close> dictionary of
  \<open>SocialMediaPoster.post_to_platforms\<close>: what sqlite3 hands back for a BOOLEAN column
  (\<open>None\<close> or an integer), and what a caller may put there directly.
\<close>

datatype pyval = PyNone | PyBool bool | PyInt int | PyStr string

text \<open>Python's \<open>bool(v)\<close>.\<close>

fun truthy :: "pyval \<Rightarrow> bool" where
  "truthy PyNone = False"
| "truthy (PyBool b) = b"
| "truthy (PyInt n) = (n \<noteq> 0)"
| "truthy (PyStr s) = (s \<noteq> [])"

text \<open>
  Exceptions derived from Python's \<open>Exception\<close>, i.e. exactly what an
  \<open>except Exception\<close> clause catches. \<open>HTTPException\<close> (FastAPI) carries a status
  code and a detail; it derives from \<open>Exception\<close> as well.
\<close>

datatype exn =
    HTTPException nat string
  | ValueError string
  | KeyError string
  | TypeError string
  | AttributeError string
  | OverflowError string
  | RequestException string
  | Exception string

fun digit_char :: "nat \<Rightarrow> char" where
  "digit_char n = ''0123456789'' ! (n mod 10)"

fun show_nat :: "nat \<Rightarrow> string" where
  "show_nat n = (if n < 10 then [digit_char n] else show_nat (n div 10) @ [digit_char n])"

text \<open>
  \<open>str(e)\<close>. For an \<open>HTTPException\<close> Starlette prints \<open>"{status_code}: {detail}"\<close>;
  a \<open>KeyError\<close> prints the \<open>repr\<close> of its key (the key between single quotes, for a
  key without quotes or escapes in it); the other exceptions print their message.
\<close>

fun exn_str :: "exn \<Rightarrow> string" where
  "exn_str (HTTPException code detail) = show_nat code @ '': '' @ detail"
| "exn_str (ValueError m) = m"
| "exn_str (KeyError m) = CHR 0x27 # m @ [CHR 0x27]"
| "exn_str (TypeError m) = m"
| "exn_str (AttributeError m) = m"
| "exn_str (OverflowError m) = m"
| "exn_str (RequestException m) = m"
| "exn_str (Exception m) = m"

text \<open>Sequencing of statements that may raise: the first exception wins.\<close>

definition bind_exn :: "exn + 'a \<Rightarrow> ('a \<Rightarrow> exn + 'b) \<Rightarrow> exn + 'b" where
  "bind_exn m f = (case m of Inl e \<Rightarrow> Inl e | Inr x \<Rightarrow> f x)"

text \<open>\<open>d[k]\<close> raises \<open>KeyError\<close> on a missing key; \<open>d.get(k, default)\<close> does not.\<close>

definition getitem :: "(string \<rightharpoonup> 'v) \<Rightarrow> string \<Rightarrow> exn + 'v" where
  "getitem d k = (case d k of None \<Rightarrow> Inl (KeyError k) | Some v \<Rightarrow> Inr v)"

definition dict_get :: "(string \<rightharpoonup> 'v) \<Rightarrow> string \<Rightarrow> 'v \<Rightarrow> 'v" where
  "dict_get d k dflt = (case d k of None \<Rightarrow> dflt | Some v \<Rightarrow> v)"

section \<open>The platform clients and the publish coordinator (post.py)\<close>

text \<open>
  The four platform clients are external collaborators: each call either raises or
  returns. \<open>TwitterImagePoster.post_image_from_url(tweet_text, image_url)\<close> and
  \<open>PinterestImagePoster.post_image_from_url(image_url, title, description)\<close> return the
  decoded JSON object of the response; the Instagram and Facebook clients
  (\<open>post_image_from_url(image_url, caption)\<close>) return the id itself.
\<close>

record clients =
  twitter_poster :: "string option \<Rightarrow> string option \<Rightarrow> exn + (string \<rightharpoonup> string)"
  instagram_poster :: "string option \<Rightarrow> string option \<Rightarrow> exn + string"
  facebook_poster :: "string option \<Rightarrow> string option \<Rightarrow> exn + string"
  pinterest_poster :: "string option \<Rightarrow> string option \<Rightarrow> string option \<Rightarrow> exn + (string \<rightharpoonup> string)"

datatype platform = Twitter | Instagram | Facebook | Pinterest

text \<open>
  The state of one fan-out: the \<open>results\<close> dictionary (a key present with value
  \<open>None\<close> is Python's \<open>results[k] = None\<close>) and, as instrumentation, the client
  invocations made so far with the content and image url they were given.
\<close>

record fanout =
  results :: "string \<rightharpoonup> string option"
  calls :: "(platform \<times> string option \<times> string option) list"

text \<open>
  The first statement of \<open>post_to_platforms\<close> rebuilds \<open>platforms\<close>: keys
  \<open>twitter\<close>, \<open>instagram\<close>, \<open>facebook\<close>, \<open>pinterest\<close>, each the truth value of
  \<open>platforms.get('publish_to_<name>', False)\<close>.
\<close>

definition rebuild_platforms :: "(string \<rightharpoonup> pyval) \<Rightarrow> (string \<rightharpoonup> bool)" where
  "rebuild_platforms platforms =
     [''twitter'' \<mapsto> truthy (dict_get platforms ''publish_to_twitter'' (PyBool False)),
      ''instagram'' \<mapsto> truthy (dict_get platforms ''publish_to_instagram'' (PyBool False)),
      ''facebook'' \<mapsto> truthy (dict_get platforms ''publish_to_facebook'' (PyBool False)),
      ''pinterest'' \<mapsto> truthy (dict_get platforms ''publish_to_pinterest'' (PyBool False))]"

text \<open>
  One \<open>if platforms[...]: try: ... except Exception: ...\<close> block per platform. The
  \<open>Inl\<close> branch of the client call is the \<open>except Exception\<close> handler.
\<close>

definition twitter_block ::
  "clients \<Rightarrow> string option \<Rightarrow> string option \<Rightarrow> (string \<rightharpoonup> bool) \<Rightarrow> fanout \<Rightarrow> exn + fanout" where
  "twitter_block cl content image_url platforms st =
     bind_exn (getitem platforms ''twitter'') (\<lambda>flag.
       if flag then
         (let st1 = st\<lparr>calls := calls st @ [(Twitter, content, image_url)]\<rparr> in
          case twitter_poster cl content image_url of
            Inr result \<Rightarrow> Inr (st1\<lparr>results := (results st1)(''twitter_post_id'' \<mapsto> result ''id'')\<rparr>)
          | Inl e \<Rightarrow> Inr (st1\<lparr>results := (results st1)(''twitter_post_id'' \<mapsto> None)\<rparr>))
       else Inr st)"

definition instagram_block ::
  "clients \<Rightarrow> string option \<Rightarrow> string option \<Rightarrow> (string \<rightharpoonup> bool) \<Rightarrow> fanout \<Rightarrow> exn + fanout" where
  "instagram_block cl content image_url platforms st =
     bind_exn (getitem platforms ''instagram'') (\<lambda>flag.
       if flag then
         (let st1 = st\<lparr>calls := calls st @ [(Instagram, content, image_url)]\<rparr> in
          case instagram_poster cl image_url content of
            Inr result \<Rightarrow> Inr (st1\<lparr>results := (results st1)(''instagram_post_id'' \<mapsto> Some result)\<rparr>)
          | Inl e \<Rightarrow> Inr (st1\<lparr>results := (results st1)(''instagram_post_id'' \<mapsto> None)\<rparr>))
       else Inr st)"

definition facebook_block ::
  "clients \<Rightarrow> string option \<Rightarrow> string option \<Rightarrow> (string \<rightharpoonup> bool) \<Rightarrow> fanout \<Rightarrow> exn + fanout" where
  "facebook_block cl content image_url platforms st =
     bind_exn (getitem platforms ''facebook'') (\<lambda>flag.
       if flag then
         (let st1 = st\<lparr>calls := calls st @ [(Facebook, content, image_url)]\<rparr> in
          case facebook_poster cl image_url content of
            Inr result \<Rightarrow> Inr (st1\<lparr>results := (results st1)(''facebook_post_id'' \<mapsto> Some result)\<rparr>)
          | Inl e \<Rightarrow> Inr (st1\<lparr>results := (results st1)(''facebook_post_id'' \<mapsto> None)\<rparr>))
       else Inr st)"

definition pinterest_block ::
  "clients \<Rightarrow> string option \<Rightarrow> string option \<Rightarrow> (string \<rightharpoonup> bool) \<Rightarrow> fanout \<Rightarrow> exn + fanout" where
  "pinterest_block cl content image_url platforms st =
     bind_exn (getitem platforms ''pinterest'') (\<lambda>flag.
       if flag then
         (let st1 = st\<lparr>calls := calls st @ [(Pinterest, content, image_url)]\<rparr> in
          case pinterest_poster cl image_url content content of
            Inr result \<Rightarrow> Inr (st1\<lparr>results := (results st1)(''pinterest_post_id'' \<mapsto> result ''id'')\<rparr>)
          | Inl e \<Rightarrow> Inr (st1\<lparr>results := (results st1)(''pinterest_post_id'' \<mapsto> None)\<rparr>))
       else Inr st)"

definition post_to_platforms ::
  "clients \<Rightarrow> string option \<Rightarrow> string option \<Rightarrow> (string \<rightharpoonup> pyval) \<Rightarrow> exn + fanout" where
  "post_to_platforms cl content image_url platforms =
     (let st0 = \<lparr>results = Map.empty, calls = []\<rparr>;
          platforms' = rebuild_platforms platforms
      in bind_exn (twitter_block cl content image_url platforms' st0) (\<lambda>st1.
         bind_exn (instagram_block cl content image_url platforms' st1) (\<lambda>st2.
         bind_exn (facebook_block cl content image_url platforms' st2) (\<lambda>st3.
         bind_exn (pinterest_block cl content image_url platforms' st3) (\<lambda>st4.
         Inr st4)))))"

section \<open>Dates, times and their text form\<close>

text \<open>
  A \<open>datetime\<close> is its wall-clock reading (year, ..., microsecond, here as the count of
  microseconds since 0001-01-01T00:00:00, which orders readings as Python orders the
  fields) and an optional \<open>tzinfo\<close>. The only zones that occur are
  \<open>ZoneInfo("America/Chicago")\<close> and the fixed offsets that \<open>fromisoformat\<close> and
  the request parser produce. A zone value carries the UTC offset (microseconds) that
  \<open>utcoffset()\<close> gives for the datetime it is attached to.
\<close>

datatype tzinfo = Chicago int | FixedOffset int

fun utcoffset :: "tzinfo \<Rightarrow> int" where
  "utcoffset (Chicago off) = off"
| "utcoffset (FixedOffset off) = off"

record datetime =
  wall :: int
  tzinfo :: "tzinfo option"

text \<open>
  Python's datetimes run from 0001-01-01T00:00:00 to 9999-12-31T23:59:59.999999. A
  datetime that is parsed or constructed has a reading in that range; arithmetic whose
  result leaves it raises \<open>OverflowError\<close>.
\<close>

definition max_wall :: int where
  "max_wall = 315537897599999999"

definition representable :: "int \<Rightarrow> bool" where
  "representable w = (0 \<le> w \<and> w \<le> max_wall)"

text \<open>
  The text \<open>YYYY-MM-DDTHH:MM:SS[.ffffff][+HH:MM]\<close> that \<open>isoformat()\<close> writes and
  \<open>fromisoformat\<close> reads, abstracted to the wall-clock reading and the offset it spells.
\<close>

datatype isotext = IsoText int "int option"

fun text_wall :: "isotext \<Rightarrow> int" where
  "text_wall (IsoText w off) = w"

fun text_offset :: "isotext \<Rightarrow> int option" where
  "text_offset (IsoText w off) = off"

definition isoformat :: "datetime \<Rightarrow> isotext" where
  "isoformat dt = IsoText (wall dt) (map_option utcoffset (tzinfo dt))"

definition fromisoformat :: "isotext \<Rightarrow> datetime" where
  "fromisoformat t = \<lparr>wall = text_wall t, tzinfo = map_option FixedOffset (text_offset t)\<rparr>"

text \<open>The instant (UTC microseconds) an offset-carrying value denotes.\<close>

definition text_instant :: "isotext \<Rightarrow> int option" where
  "text_instant t = map_option (\<lambda>off. text_wall t - off) (text_offset t)"

definition instant :: "datetime \<Rightarrow> int option" where
  "instant dt = map_option (\<lambda>z. wall dt - utcoffset z) (tzinfo dt)"

text \<open>
  SQLite compares two TEXT values bytewise. On ISO texts that is: the wall-clock part
  first (a reading without a fractional part sorts before the same second with one,
  since \<open>+\<close> and \<open>-\<close> sort before \<open>.\<close>); on equal readings the offset suffix decides,
  where no suffix sorts first, then \<open>+HH:MM\<close> by magnitude, then \<open>-HH:MM\<close> by
  magnitude.
\<close>

fun tz_rank :: "int option \<Rightarrow> int \<times> int" where
  "tz_rank None = (0, 0)"
| "tz_rank (Some off) = (if 0 \<le> off then (1, off) else (2, - off))"

definition text_le :: "isotext \<Rightarrow> isotext \<Rightarrow> bool" where
  "text_le a b =
     (text_wall a < text_wall b \<or>
      (text_wall a = text_wall b \<and>
        (fst (tz_rank (text_offset a)) < fst (tz_rank (text_offset b)) \<or>
         (fst (tz_rank (text_offset a)) = fst (tz_rank (text_offset b)) \<and>
          snd (tz_rank (text_offset a)) \<le> snd (tz_rank (text_offset b))))))"

section \<open>The environment of one operation\<close>

text \<open>
  What an operation reads from outside the store: the clock (the UTC instant of the
  call), the time-zone database (the offset of America/Chicago at a wall-clock reading,
  as \<open>replace(tzinfo=...)\<close> resolves it, and at a UTC instant, as \<open>astimezone\<close> and
  \<open>datetime.now(tz)\<close> resolve it; the offset of the system's local zone, which
  \<open>astimezone\<close> assumes for a naive datetime), SQLite's \<open>CURRENT_TIMESTAMP\<close>, the
  outcome of the text-generation pipeline of \<open>recipe_bot\<close>, and the platform clients.
  The clock and \<open>CURRENT_TIMESTAMP\<close> are read as one value for the whole operation;
  \<open>datetime.now\<close> itself does not fail.
\<close>

record env =
  clock :: int
  chicago_at_wall :: "int \<Rightarrow> int"
  chicago_at_utc :: "int \<Rightarrow> int"
  system_at_wall :: "int \<Rightarrow> int"
  current_timestamp :: string
  recipe_bot :: "exn + string"
  posters :: clients

definition now_chicago :: "env \<Rightarrow> datetime" where
  "now_chicago e =
     \<lparr>wall = clock e + chicago_at_utc e (clock e),
      tzinfo = Some (Chicago (chicago_at_utc e (clock e)))\<rparr>"

text \<open>\<open>dt.replace(tzinfo=ZoneInfo("America/Chicago"))\<close>: the reading is kept, the zone swapped.\<close>

definition replace_chicago :: "env \<Rightarrow> datetime \<Rightarrow> datetime" where
  "replace_chicago e dt = \<lparr>wall = wall dt, tzinfo = Some (Chicago (chicago_at_wall e (wall dt)))\<rparr>"

text \<open>
  \<open>dt.astimezone(ZoneInfo("America/Chicago"))\<close>: the instant is kept, the reading
  converted. A datetime already in the zone is returned as it is. Otherwise the offset
  is subtracted (\<open>self - offset\<close>) and the zone's \<open>fromutc\<close> adds its own; either
  step raises \<open>OverflowError\<close> when its result is not representable. A naive datetime
  is taken to be in the system's local zone.
\<close>

definition utc_to_chicago :: "env \<Rightarrow> int \<Rightarrow> exn + datetime" where
  "utc_to_chicago e u =
     (if \<not> representable u then Inl (OverflowError ''date value out of range'')
      else
        (let w = u + chicago_at_utc e u in
         if \<not> representable w then Inl (OverflowError ''date value out of range'')
         else Inr \<lparr>wall = w, tzinfo = Some (Chicago (chicago_at_utc e u))\<rparr>))"

definition astimezone_chicago :: "env \<Rightarrow> datetime \<Rightarrow> exn + datetime" where
  "astimezone_chicago e dt =
     (case tzinfo dt of
        Some (Chicago off) \<Rightarrow> Inr dt
      | Some (FixedOffset off) \<Rightarrow> utc_to_chicago e (wall dt - off)
      | None \<Rightarrow> utc_to_chicago e (wall dt - system_at_wall e (wall dt)))"

text \<open>
  \<open>datetime.now(ZoneInfo("America/Chicago")) + timedelta(days=1)\<close>; the addition
  raises \<open>OverflowError\<close> when the result is not representable.
\<close>

definition tomorrow_chicago :: "env \<Rightarrow> exn + datetime" where
  "tomorrow_chicago e =
     (let w = wall (now_chicago e) + 86400000000 in
      if \<not> representable w then Inl (OverflowError ''date value out of range'')
      else Inr \<lparr>wall = w, tzinfo = Some (Chicago (chicago_at_wall e w))\<rparr>)"

text \<open>
  \<open>to_cst(dt_str)\<close> of main.py: a default one day ahead for \<open>None\<close>; otherwise parse,
  attach Chicago to a naive value, convert an aware one, and print. It raises what the
  addition or the conversion raises.
\<close>

definition to_cst :: "env \<Rightarrow> isotext option \<Rightarrow> exn + isotext" where
  "to_cst e dt_str =
     (case dt_str of
        None \<Rightarrow> bind_exn (tomorrow_chicago e) (\<lambda>dt. Inr (isoformat dt))
      | Some t \<Rightarrow>
          (let dt = fromisoformat t in
           if tzinfo dt = None then Inr (isoformat (replace_chicago e dt))
           else bind_exn (astimezone_chicago e dt) (\<lambda>dt'. Inr (isoformat dt'))))"

section \<open>The posts table\<close>

record post =
  post_id :: int
  content :: "string option"
  image_url :: "string option"
  scheduled_time :: "isotext option"
  is_published :: int
  is_canceled :: int
  is_draft :: int
  created_at :: string
  updated_at :: string
  engagement_score :: int
  publish_to_twitter :: "bool option"
  publish_to_instagram :: "bool option"
  publish_to_facebook :: "bool option"
  publish_to_pinterest :: "bool option"
  twitter_post_id :: "string option"
  instagram_post_id :: "string option"
  facebook_post_id :: "string option"
  pinterest_post_id :: "string option"

text \<open>The table and the AUTOINCREMENT counter (\<open>sqlite_sequence\<close>).\<close>

record store =
  rows :: "post list"
  seq :: int

text \<open>\<open>SELECT * FROM posts WHERE id = ?\<close> followed by \<open>fetchone()\<close>.\<close>

definition get_row :: "store \<Rightarrow> int \<Rightarrow> post option" where
  "get_row s i = find (\<lambda>p. post_id p = i) (rows s)"

text \<open>\<open>UPDATE posts SET ... WHERE id = ?\<close>.\<close>

definition update_where_id :: "int \<Rightarrow> (post \<Rightarrow> post) \<Rightarrow> store \<Rightarrow> store" where
  "update_where_id i f s = s\<lparr>rows := map (\<lambda>p. if post_id p = i then f p else p) (rows s)\<rparr>"

fun max_id :: "post list \<Rightarrow> int" where
  "max_id [] = 0"
| "max_id (p # ps) = max (post_id p) (max_id ps)"

text \<open>The request body \<open>PostCreate\<close> (pydantic model \<open>PostBase\<close>).\<close>

record PostCreate =
  req_content :: "string option"
  req_image_url :: "string option"
  req_scheduled_time :: "datetime option"
  req_publish_to_twitter :: "bool option"
  req_publish_to_instagram :: "bool option"
  req_publish_to_facebook :: "bool option"
  req_publish_to_pinterest :: "bool option"

text \<open>\<open>x or ''\<close> and \<open>not x\<close> on an optional string.\<close>

fun or_empty :: "string option \<Rightarrow> string" where
  "or_empty None = []"
| "or_empty (Some s) = s"

fun falsy :: "string option \<Rightarrow> bool" where
  "falsy None = True"
| "falsy (Some s) = (s = [])"

text \<open>
  The display form of \<open>scheduled_time\<close> that the endpoints put into their response:
  \<open>to_cst\<close> of the stored text, or one day ahead when the column is NULL.
\<close>

definition display_time :: "env \<Rightarrow> post \<Rightarrow> exn + post" where
  "display_time e p =
     (case scheduled_time p of
        Some t \<Rightarrow>
          bind_exn (to_cst e (Some t)) (\<lambda>shown. Inr (p\<lparr>scheduled_time := Some shown\<rparr>))
      | None \<Rightarrow>
          bind_exn (tomorrow_chicago e)
            (\<lambda>default_time. Inr (p\<lparr>scheduled_time := Some (isoformat default_time)\<rparr>)))"

section \<open>The scheduling API (main.py)\<close>

text \<open>
  Every endpoint takes the environment and the store and returns the store it leaves
  behind together with its response or the exception it raises. Comparisons between
  two datetimes that both carry \<open>ZoneInfo("America/Chicago")\<close> (one cached object)
  are Python's same-zone comparisons: of the wall-clock readings.
\<close>

text \<open>
  \<open>generate_post_text()\<close>: the generation pipeline inside
  \<open>try: ... except Exception as e: raise HTTPException(500, str(e))\<close>; of its result
  only \<open>tweet_text\<close> is used here.
\<close>

definition generate_post_text :: "env \<Rightarrow> exn + string" where
  "generate_post_text e =
     (case recipe_bot e of
        Inl ex \<Rightarrow> Inl (HTTPException 500 (exn_str ex))
      | Inr tweet_text \<Rightarrow> Inr tweet_text)"

text \<open>
  \<open>POST /posts/\<close>. The row is inserted and committed before it is read back and its
  \<open>scheduled_time\<close> passed through \<open>to_cst\<close>; an exception there leaves the row stored.
\<close>

definition create_scheduled_post :: "env \<Rightarrow> PostCreate \<Rightarrow> store \<Rightarrow> store \<times> (exn + post)" where
  "create_scheduled_post e req s =
     (case req_scheduled_time req of
        None \<Rightarrow> (s, Inl (HTTPException 400 ''Scheduled time is required''))
      | Some t \<Rightarrow>
          (let scheduled_cst = replace_chicago e t;
               now_cst = now_chicago e
           in if wall scheduled_cst \<le> wall now_cst
              then (s, Inl (HTTPException 400 ''Scheduled time must be in the future (CST)''))
              else
                (case (if falsy (req_content req) then generate_post_text e
                       else Inr (or_empty (req_content req))) of
                   Inl ex \<Rightarrow> (s, Inl ex)
                 | Inr text \<Rightarrow>
                     (let new_id = max (seq s) (max_id (rows s)) + 1;
                          row = \<lparr>post_id = new_id,
                                 content = Some text,
                                 image_url = req_image_url req,
                                 scheduled_time = Some (isoformat scheduled_cst),
                                 is_published = 0,
                                 is_canceled = 0,
                                 is_draft = 0,
                                 created_at = current_timestamp e,
                                 updated_at = current_timestamp e,
                                 engagement_score = 0,
                                 publish_to_twitter = req_publish_to_twitter req,
                                 publish_to_instagram = req_publish_to_instagram req,
                                 publish_to_facebook = req_publish_to_facebook req,
                                 publish_to_pinterest = req_publish_to_pinterest req,
                                 twitter_post_id = None,
                                 instagram_post_id = None,
                                 facebook_post_id = None,
                                 pinterest_post_id = None\<rparr>;
                          s' = \<lparr>rows = rows s @ [row], seq = new_id\<rparr>
                      in case get_row s' new_id of
                           None \<Rightarrow> (s', Inl (TypeError ''NoneType object is not iterable''))
                         | Some db_post \<Rightarrow>
                             (case to_cst e (scheduled_time db_post) of
                                Inl ex \<Rightarrow> (s', Inl ex)
                              | Inr shown \<Rightarrow>
                                  (s', Inr (db_post\<lparr>scheduled_time := Some shown\<rparr>)))))))"

text \<open>\<open>PUT /posts/{post_id}\<close>.\<close>

definition update_post :: "env \<Rightarrow> int \<Rightarrow> PostCreate \<Rightarrow> store \<Rightarrow> store \<times> (exn + post)" where
  "update_post e i req s =
     (case get_row s i of
        None \<Rightarrow> (s, Inl (HTTPException 404 ''Post not found''))
      | Some existing_post \<Rightarrow>
          (let scheduled_time' =
                 (case req_scheduled_time req of
                    None \<Rightarrow> None
                  | Some t \<Rightarrow> Some (isoformat (replace_chicago e t)));
               s' = update_where_id i
                      (\<lambda>p. p\<lparr>content := Some (or_empty (req_content req)),
                              image_url := Some (or_empty (req_image_url req)),
                              scheduled_time := scheduled_time',
                              updated_at := current_timestamp e,
                              publish_to_twitter := req_publish_to_twitter req,
                              publish_to_instagram := req_publish_to_instagram req,
                              publish_to_facebook := req_publish_to_facebook req,
                              publish_to_pinterest := req_publish_to_pinterest req\<rparr>) s
           in case get_row s' i of
                None \<Rightarrow> (s', Inl (TypeError ''NoneType object is not iterable''))
              | Some updated_post \<Rightarrow> (s', display_time e updated_post)))"

text \<open>\<open>PUT /drafts/{post_id}\<close>.\<close>

definition update_draft :: "env \<Rightarrow> int \<Rightarrow> PostCreate \<Rightarrow> store \<Rightarrow> store \<times> (exn + post)" where
  "update_draft e i req s =
     (case get_row s i of
        None \<Rightarrow> (s, Inl (HTTPException 404 ''Draft not found''))
      | Some existing_post \<Rightarrow>
          (let scheduled_time' =
                 (case req_scheduled_time req of
                    None \<Rightarrow> None
                  | Some t \<Rightarrow> Some (isoformat (replace_chicago e t)));
               s' = update_where_id i
                      (\<lambda>p. p\<lparr>content := Some (or_empty (req_content req)),
                              image_url := Some (or_empty (req_image_url req)),
                              scheduled_time := scheduled_time',
                              updated_at := current_timestamp e\<rparr>) s
           in case get_row s' i of
                None \<Rightarrow> (s', Inl (TypeError ''NoneType object is not iterable''))
              | Some updated_post \<Rightarrow> (s', display_time e updated_post)))"

text \<open>\<open>POST /posts/{post_id}/cancel\<close> and \<open>DELETE /posts/{post_id}/cancel\<close>.\<close>

definition cancel_post :: "env \<Rightarrow> int \<Rightarrow> store \<Rightarrow> store \<times> (exn + string)" where
  "cancel_post e i s =
     (case get_row s i of
        None \<Rightarrow> (s, Inl (HTTPException 404 ''Post not found''))
      | Some post \<Rightarrow>
          (update_where_id i (\<lambda>p. p\<lparr>is_canceled := 1, updated_at := current_timestamp e\<rparr>) s,
           Inr ''Post canceled successfully''))"

definition uncancel_post :: "env \<Rightarrow> int \<Rightarrow> store \<Rightarrow> store \<times> (exn + string)" where
  "uncancel_post e i s =
     (case get_row s i of
        None \<Rightarrow> (s, Inl (HTTPException 404 ''Post not found''))
      | Some post \<Rightarrow>
          (update_where_id i (\<lambda>p. p\<lparr>is_canceled := 0, updated_at := current_timestamp e\<rparr>) s,
           Inr ''Post unscheduled (uncanceled) successfully''))"

text \<open>
  \<open>POST /posts/{post_id}/schedule\<close>. The body is a free-form dictionary;
  \<open>scheduled_data.get("scheduled_time")\<close> is absent or falsy, a truthy value that is
  not a string (\<open>.replace\<close> then raises \<open>AttributeError\<close>, which nothing catches), a
  string \<open>fromisoformat\<close> rejects, or an ISO text. The \<open>except ValueError\<close> around the
  parsing and the time check does not catch the \<open>OverflowError\<close> of \<open>astimezone\<close>.
\<close>

datatype scheduled_data = NoTime | NotAString | BadFormat | TimeText isotext

definition schedule_post ::
  "env \<Rightarrow> int \<Rightarrow> scheduled_data \<Rightarrow> store \<Rightarrow> store \<times> (exn + string \<times> post)" where
  "schedule_post e i scheduled_data s =
     (case get_row s i of
        None \<Rightarrow> (s, Inl (HTTPException 404 ''Post not found''))
      | Some post \<Rightarrow>
          (case scheduled_data of
             NoTime \<Rightarrow> (s, Inl (HTTPException 400 ''Scheduled time is required''))
           | NotAString \<Rightarrow> (s, Inl (AttributeError ''object has no attribute replace''))
           | BadFormat \<Rightarrow> (s, Inl (HTTPException 400 ''Invalid datetime format''))
           | TimeText t \<Rightarrow>
               (case astimezone_chicago e (fromisoformat t) of
                  Inl ex \<Rightarrow> (s, Inl ex)
                | Inr scheduled_cst \<Rightarrow>
                    if wall scheduled_cst \<le> wall (now_chicago e)
                    then (s, Inl (HTTPException 400
                                    ''Scheduled time must be in the future (CST)''))
                    else
                      (let s' = update_where_id i
                                  (\<lambda>p. p\<lparr>scheduled_time := Some (isoformat scheduled_cst),
                                          is_draft := 0,
                                          updated_at := current_timestamp e\<rparr>) s
                       in case get_row s' i of
                            None \<Rightarrow> (s', Inl (TypeError ''NoneType object is not iterable''))
                          | Some updated_post \<Rightarrow>
                              (case scheduled_time updated_post of
                                 None \<Rightarrow> (s', Inr (''Post scheduled successfully'', updated_post))
                               | Some st \<Rightarrow>
                                   (case to_cst e (Some st) of
                                      Inl ex \<Rightarrow> (s', Inl ex)
                                    | Inr shown \<Rightarrow>
                                        (s', Inr (''Post scheduled successfully'',
                                                  updated_post\<lparr>scheduled_time :=
                                                    Some shown\<rparr>))))))))"

section \<open>Publishing (main.py)\<close>

text \<open>
  The dictionary both callers hand to the coordinator:
  \<open>{'twitter': post['publish_to_twitter'], 'instagram': ..., 'facebook': ...,
  'pinterest': ...}\<close>, with the column values as sqlite3 returns them.
\<close>

fun column_value :: "bool option \<Rightarrow> pyval" where
  "column_value None = PyNone"
| "column_value (Some b) = PyInt (if b then 1 else 0)"

definition platforms_of :: "post \<Rightarrow> (string \<rightharpoonup> pyval)" where
  "platforms_of p =
     [''twitter'' \<mapsto> column_value (publish_to_twitter p),
      ''instagram'' \<mapsto> column_value (publish_to_instagram p),
      ''facebook'' \<mapsto> column_value (publish_to_facebook p),
      ''pinterest'' \<mapsto> column_value (publish_to_pinterest p)]"

text \<open>\<open>post_results.get(k)\<close>: \<open>None\<close> for a missing key.\<close>

definition results_get :: "(string \<rightharpoonup> string option) \<Rightarrow> string \<Rightarrow> string option" where
  "results_get r k = (case r k of None \<Rightarrow> None | Some v \<Rightarrow> v)"

text \<open>
  The statement both callers run once the fan-out has returned:
  \<open>UPDATE posts SET is_published = 1, updated_at = CURRENT_TIMESTAMP,
  twitter_post_id = ?, instagram_post_id = ?, facebook_post_id = ?,
  pinterest_post_id = ? WHERE id = ?\<close>.
\<close>

definition mark_published :: "env \<Rightarrow> int \<Rightarrow> (string \<rightharpoonup> string option) \<Rightarrow> store \<Rightarrow> store" where
  "mark_published e i post_results s =
     update_where_id i
       (\<lambda>p. p\<lparr>is_published := 1,
               updated_at := current_timestamp e,
               twitter_post_id := results_get post_results ''twitter_post_id'',
               instagram_post_id := results_get post_results ''instagram_post_id'',
               facebook_post_id := results_get post_results ''facebook_post_id'',
               pinterest_post_id := results_get post_results ''pinterest_post_id''\<rparr>) s"

text \<open>
  The outcome of a publish operation: the store, the platform-client invocations made,
  and the response (the row as read at the start, and the platform results) or the
  exception. The coordinator's type allows it to raise, so its callers have a branch
  for that; \<open>post_to_platforms_eq\<close> below shows the branch is never taken.
\<close>

record publish_outcome =
  out_store :: store
  out_calls :: "(platform \<times> string option \<times> string option) list"
  out_response :: "exn + post \<times> (string \<rightharpoonup> string option)"

text \<open>
  The check of the \<open>elif post["scheduled_time"]:\<close> branch: the stored text, parsed and
  given the Chicago zone, lies after the current Chicago time.
\<close>

definition scheduled_in_future :: "env \<Rightarrow> post \<Rightarrow> bool" where
  "scheduled_in_future e post =
     (case scheduled_time post of
        None \<Rightarrow> False
      | Some t \<Rightarrow> wall (replace_chicago e (fromisoformat t)) > wall (now_chicago e))"

text \<open>
  The \<open>try\<close> body of \<open>POST /posts/{post_id}/publish\<close>: a draft has its draft flag
  cleared (and committed) and skips the time check; a non-draft with a scheduled time
  is checked against the clock.
\<close>

definition publish_post_body :: "env \<Rightarrow> int \<Rightarrow> store \<Rightarrow> publish_outcome" where
  "publish_post_body e i s =
     (case get_row s i of
        None \<Rightarrow> \<lparr>out_store = s, out_calls = [],
                 out_response = Inl (HTTPException 404 ''Post not found'')\<rparr>
      | Some post \<Rightarrow>
          if is_published post \<noteq> 0
          then \<lparr>out_store = s, out_calls = [],
                out_response = Inl (HTTPException 400 ''Post is already published'')\<rparr>
          else
            (let s1 = (if is_draft post \<noteq> 0
                       then update_where_id i (\<lambda>p. p\<lparr>is_draft := 0\<rparr>) s
                       else s);
                 in_future =
                   (if is_draft post \<noteq> 0 then False else scheduled_in_future e post)
             in if in_future
                then \<lparr>out_store = s1, out_calls = [],
                      out_response =
                        Inl (HTTPException 400 ''Post is scheduled for future publication'')\<rparr>
                else
                  (case post_to_platforms (posters e) (content post) (image_url post)
                          (platforms_of post) of
                     Inl ex \<Rightarrow> \<lparr>out_store = s1, out_calls = [], out_response = Inl ex\<rparr>
                   | Inr st \<Rightarrow>
                       \<lparr>out_store = mark_published e i (results st) s1,
                        out_calls = calls st,
                        out_response = Inr (post, results st)\<rparr>)))"

text \<open>
  The endpoint: the body under
  \<open>except Exception as e: raise HTTPException(500, f"Failed to publish post: {str(e)}")\<close>.
\<close>

definition publish_post :: "env \<Rightarrow> int \<Rightarrow> store \<Rightarrow> publish_outcome" where
  "publish_post e i s =
     (let r = publish_post_body e i s
      in case out_response r of
           Inl ex \<Rightarrow>
             r\<lparr>out_response :=
                 Inl (HTTPException 500 (''Failed to publish post: '' @ exn_str ex))\<rparr>
         | Inr v \<Rightarrow> r)"

section \<open>The due-post sweep (main.py)\<close>

text \<open>
  The WHERE clause of the due query:
  \<open>scheduled_time <= ? AND is_published = 0 AND is_canceled = 0 AND is_draft = 0\<close>,
  the parameter being \<open>now_cst.isoformat()\<close>. A NULL \<open>scheduled_time\<close> makes the
  comparison NULL, so the row is not selected.
\<close>

definition due :: "isotext \<Rightarrow> post \<Rightarrow> bool" where
  "due now p =
     ((case scheduled_time p of None \<Rightarrow> False | Some t \<Rightarrow> text_le t now)
      \<and> is_published p = 0 \<and> is_canceled p = 0 \<and> is_draft p = 0)"

definition due_posts :: "env \<Rightarrow> store \<Rightarrow> post list" where
  "due_posts e s = filter (due (isoformat (now_chicago e))) (rows s)"

text \<open>
  The state of a sweep: the store, the ids of the posts for which the coordinator has
  been invoked, and the platform-client invocations made.
\<close>

record sweep =
  sw_store :: store
  sw_fanouts :: "int list"
  sw_calls :: "(platform \<times> string option \<times> string option) list"

text \<open>
  The loop body, for one fetched row:
  \<open>try: post_results = await post_to_platforms(...); UPDATE ...; commit
  except Exception: print(...); continue\<close>.
\<close>

definition sweep_step :: "env \<Rightarrow> sweep \<Rightarrow> post \<Rightarrow> sweep" where
  "sweep_step e sw post =
     (case post_to_platforms (posters e) (content post) (image_url post) (platforms_of post) of
        Inl ex \<Rightarrow> sw\<lparr>sw_fanouts := sw_fanouts sw @ [post_id post]\<rparr>
      | Inr st \<Rightarrow>
          \<lparr>sw_store = mark_published e (post_id post) (results st) (sw_store sw),
           sw_fanouts = sw_fanouts sw @ [post_id post],
           sw_calls = sw_calls sw @ calls st\<rparr>)"

definition publish_due_tweets :: "env \<Rightarrow> store \<Rightarrow> sweep" where
  "publish_due_tweets e s =
     foldl (sweep_step e) \<lparr>sw_store = s, sw_fanouts = [], sw_calls = []\<rparr> (due_posts e s)"

section \<open>Vocabulary of the statements\<close>

text \<open>
  The key under which the coordinator looks a platform's flag up, the key under which
  it records the platform's result, whether a \<open>platforms\<close> argument targets a platform
  as the coordinator reads it, and what the coordinator records for a client's outcome
  (\<open>None\<close>, Python's null, when the client raised).
\<close>

fun flag_key :: "platform \<Rightarrow> string" where
  "flag_key Twitter = ''publish_to_twitter''"
| "flag_key Instagram = ''publish_to_instagram''"
| "flag_key Facebook = ''publish_to_facebook''"
| "flag_key Pinterest = ''publish_to_pinterest''"

fun result_key :: "platform \<Rightarrow> string" where
  "result_key Twitter = ''twitter_post_id''"
| "result_key Instagram = ''instagram_post_id''"
| "result_key Facebook = ''facebook_post_id''"
| "result_key Pinterest = ''pinterest_post_id''"

definition targeted :: "(string \<rightharpoonup> pyval) \<Rightarrow> platform \<Rightarrow> bool" where
  "targeted platforms k = truthy (dict_get platforms (flag_key k) (PyBool False))"

fun recorded_id :: "clients \<Rightarrow> platform \<Rightarrow> string option \<Rightarrow> string option \<Rightarrow> string option" where
  "recorded_id cl Twitter c i =
     (case twitter_poster cl c i of Inl e \<Rightarrow> None | Inr r \<Rightarrow> r ''id'')"
| "recorded_id cl Instagram c i =
     (case instagram_poster cl i c of Inl e \<Rightarrow> None | Inr r \<Rightarrow> Some r)"
| "recorded_id cl Facebook c i =
     (case facebook_poster cl i c of Inl e \<Rightarrow> None | Inr r \<Rightarrow> Some r)"
| "recorded_id cl Pinterest c i =
     (case pinterest_poster cl i c c of Inl e \<Rightarrow> None | Inr r \<Rightarrow> r ''id'')"

fun client_raises :: "clients \<Rightarrow> platform \<Rightarrow> string option \<Rightarrow> string option \<Rightarrow> bool" where
  "client_raises cl Twitter c i = isl (twitter_poster cl c i)"
| "client_raises cl Instagram c i = isl (instagram_poster cl i c)"
| "client_raises cl Facebook c i = isl (facebook_poster cl i c)"
| "client_raises cl Pinterest c i = isl (pinterest_poster cl i c c)"

text \<open>The column of a row that holds a platform's external id.\<close>

fun id_field :: "platform \<Rightarrow> post \<Rightarrow> string option" where
  "id_field Twitter p = twitter_post_id p"
| "id_field Instagram p = instagram_post_id p"
| "id_field Facebook p = facebook_post_id p"
| "id_field Pinterest p = pinterest_post_id p"

text \<open>A row after the publish UPDATE when the fan-out returned an empty result map.\<close>

definition published_null :: "env \<Rightarrow> post \<Rightarrow> post" where
  "published_null e p =
     p\<lparr>is_published := 1, updated_at := current_timestamp e,
       twitter_post_id := None, instagram_post_id := None,
       facebook_post_id := None, pinterest_post_id := None\<rparr>"

text \<open>
  The instant a submitted \<open>scheduled_time\<close> denotes: its own offset if it carries one,
  the scheduling zone's if it is naive.
\<close>

definition submitted_instant :: "env \<Rightarrow> datetime \<Rightarrow> int" where
  "submitted_instant e t =
     (case tzinfo t of
        None \<Rightarrow> wall t - chicago_at_wall e (wall t)
      | Some z \<Rightarrow> wall t - utcoffset z)"

text \<open>
  An instant (UTC microseconds) that \<open>astimezone\<close> can turn into a Chicago datetime:
  it is representable, and so is its Chicago reading.
\<close>

definition convertible :: "env \<Rightarrow> int \<Rightarrow> bool" where
  "convertible e u = (representable u \<and> representable (u + chicago_at_utc e u))"

text \<open>A submitted time without an offset, or with the offset Chicago has at that reading.\<close>

definition chicago_reading :: "env \<Rightarrow> datetime \<Rightarrow> bool" where
  "chicago_reading e t =
     (case tzinfo t of
        None \<Rightarrow> True
      | Some z \<Rightarrow> utcoffset z = chicago_at_wall e (wall t))"

text \<open>
  What no scheduling operation touches: the identity of a row, its publication flag and
  per-platform ids, its creation time and its score.
\<close>

definition publication_kept :: "post \<Rightarrow> post \<Rightarrow> bool" where
  "publication_kept p p' =
     (post_id p' = post_id p \<and> is_published p' = is_published p
      \<and> twitter_post_id p' = twitter_post_id p
      \<and> instagram_post_id p' = instagram_post_id p
      \<and> facebook_post_id p' = facebook_post_id p
      \<and> pinterest_post_id p' = pinterest_post_id p
      \<and> created_at p' = created_at p
      \<and> engagement_score p' = engagement_score p)"

text \<open>The mutating operations of the scheduling API other than publishing, and runs of them.\<close>

datatype operation =
    Update int PostCreate
  | UpdateDraft int PostCreate
  | Cancel int
  | Uncancel int
  | Schedule int scheduled_data

fun run_operation :: "env \<Rightarrow> operation \<Rightarrow> store \<Rightarrow> store" where
  "run_operation e (Update i req) s = fst (update_post e i req s)"
| "run_operation e (UpdateDraft i req) s = fst (update_draft e i req s)"
| "run_operation e (Cancel i) s = fst (cancel_post e i s)"
| "run_operation e (Uncancel i) s = fst (uncancel_post e i s)"
| "run_operation e (Schedule i d) s = fst (schedule_post e i d s)"

fun run_operations :: "(env \<times> operation) list \<Rightarrow> store \<Rightarrow> store" where
  "run_operations [] s = s"
| "run_operations ((e, op) # ops) s = run_operations ops (run_operation e op s)"

text \<open>
  The row \<open>create_scheduled_post\<close> inserts for a request with scheduled time \<open>t\<close>
  and the content it settled on.
\<close>

definition new_row :: "env \<Rightarrow> PostCreate \<Rightarrow> store \<Rightarrow> datetime \<Rightarrow> string \<Rightarrow> post" where
  "new_row e req s t body =
     \<lparr>post_id = max (seq s) (max_id (rows s)) + 1,
      content = Some body,
      image_url = req_image_url req,
      scheduled_time = Some (isoformat (replace_chicago e t)),
      is_published = 0,
      is_canceled = 0,
      is_draft = 0,
      created_at = current_timestamp e,
      updated_at = current_timestamp e,
      engagement_score = 0,
      publish_to_twitter = req_publish_to_twitter req,
      publish_to_instagram = req_publish_to_instagram req,
      publish_to_facebook = req_publish_to_facebook req,
      publish_to_pinterest = req_publish_to_pinterest req,
      twitter_post_id = None,
      instagram_post_id = None,
      facebook_post_id = None,
      pinterest_post_id = None\<rparr>"

subsection \<open>Concrete inputs\<close>

text \<open>
  Times are microseconds since 0001-01-01T00:00:00. The example clock reads
  2030-01-01T18:00:00Z, which is 12:00:00 in Chicago at UTC-06:00.
\<close>

definition cst :: int where
  "cst = - 21600000000"

definition t_1000 :: int where "t_1000 = 64029088800000000"
definition t_1200 :: int where "t_1200 = 64029096000000000"
definition t_1500 :: int where "t_1500 = 64029106800000000"
definition t_1800 :: int where "t_1800 = 64029117600000000"
definition t_2100 :: int where "t_2100 = 64029128400000000"

text \<open>
  The night of 2030-11-03, when Chicago falls back from UTC-05:00 to UTC-06:00 at
  07:00 UTC: the wall-clock readings 01:30, 01:45 and 02:00 of that day, and the
  instants 06:45 and 07:30 UTC. The last reading of a Python datetime's last hour,
  9999-12-31T23:00:00.
\<close>

definition cdt :: int where
  "cdt = - 18000000000"

definition w_0130 :: int where "w_0130 = 64055496600000000"
definition w_0145 :: int where "w_0145 = 64055497500000000"
definition w_0200 :: int where "w_0200 = 64055498400000000"
definition u_0645 :: int where "u_0645 = 64055515500000000"
definition u_0700 :: int where "u_0700 = 64055516400000000"
definition u_0730 :: int where "u_0730 = 64055518200000000"
definition w_last_hour :: int where "w_last_hour = 315537894000000000"

text \<open>Twitter, Instagram and Pinterest succeed; Facebook raises.\<close>

definition ex_clients :: clients where
  "ex_clients =
     \<lparr>twitter_poster = (\<lambda>c i. Inr [''id'' \<mapsto> ''123'']),
      instagram_poster = (\<lambda>i c. Inr ''ig-1''),
      facebook_poster = (\<lambda>i c. Inl (RequestException ''connection refused'')),
      pinterest_poster = (\<lambda>i c d. Inr [''id'' \<mapsto> ''pin-1''])\<rparr>"

definition ex_env :: env where
  "ex_env =
     \<lparr>clock = t_1800,
      chicago_at_wall = (\<lambda>w. cst),
      chicago_at_utc = (\<lambda>u. cst),
      system_at_wall = (\<lambda>w. 0),
      current_timestamp = ''2030-01-01 18:00:00'',
      recipe_bot = Inr ''fresh tweet'',
      posters = ex_clients\<rparr>"

text \<open>Every client raises.\<close>

definition failing_clients :: clients where
  "failing_clients =
     \<lparr>twitter_poster = (\<lambda>c i. Inl (Exception ''Failed to post tweet'')),
      instagram_poster = (\<lambda>i c. Inl (Exception ''No container ID returned'')),
      facebook_poster = (\<lambda>i c. Inl (RequestException ''connection refused'')),
      pinterest_poster = (\<lambda>i c d. Inl (Exception ''Failed to create pin''))\<rparr>"

definition fail_env :: env where
  "fail_env = ex_env\<lparr>posters := failing_clients\<rparr>"

text \<open>The same environment one minute later.\<close>

definition later_env :: env where
  "later_env = ex_env\<lparr>clock := t_1800 + 60000000\<rparr>"

text \<open>
  The environment at 07:30 UTC of the fall-back night, which is 01:30 in Chicago for the
  second time; a reading before 02:00 of that day resolves to UTC-05:00.
\<close>

definition fallback_env :: env where
  "fallback_env =
     ex_env\<lparr>clock := u_0730,
             chicago_at_wall := (\<lambda>w. if w < w_0200 then cdt else cst),
             chicago_at_utc := (\<lambda>u. if u < u_0700 then cdt else cst)\<rparr>"

text \<open>The same environment with the generation pipeline failing.\<close>

definition gen_fail_env :: env where
  "gen_fail_env = ex_env\<lparr>recipe_bot := Inl (Exception ''model unavailable'')\<rparr>"

text \<open>
  A scheduled post that was due at 10:00 Chicago time, targeting twitter and facebook.
\<close>

definition ex_post :: post where
  "ex_post =
     \<lparr>post_id = 1,
      content = Some ''hello'',
      image_url = Some ''http://img/1.png'',
      scheduled_time = Some (IsoText t_1000 (Some cst)),
      is_published = 0,
      is_canceled = 0,
      is_draft = 0,
      created_at = ''2029-12-31 08:00:00'',
      updated_at = ''2029-12-31 08:00:00'',
      engagement_score = 0,
      publish_to_twitter = Some True,
      publish_to_instagram = Some False,
      publish_to_facebook = Some True,
      publish_to_pinterest = Some False,
      twitter_post_id = None,
      instagram_post_id = None,
      facebook_post_id = None,
      pinterest_post_id = None\<rparr>"

text \<open>The same post already published, and the same post scheduled for 15:00.\<close>

definition published_post :: post where
  "published_post = ex_post\<lparr>is_published := 1, twitter_post_id := Some ''123''\<rparr>"

definition future_post :: post where
  "future_post = ex_post\<lparr>post_id := 2, scheduled_time := Some (IsoText t_1500 (Some cst))\<rparr>"

text \<open>
  The same post as \<open>create_scheduled_post\<close> stores it for 01:45 of the fall-back night:
  with the offset of the first 01:45, UTC-05:00.
\<close>

definition overdue_post :: post where
  "overdue_post = ex_post\<lparr>scheduled_time := Some (IsoText w_0145 (Some cdt))\<rparr>"

definition overdue_store :: store where
  "overdue_store = \<lparr>rows = [overdue_post], seq = 1\<rparr>"

definition ex_store :: store where
  "ex_store = \<lparr>rows = [ex_post, future_post], seq = 2\<rparr>"

definition published_store :: store where
  "published_store = \<lparr>rows = [published_post, future_post], seq = 2\<rparr>"

text \<open>Requests: an edit, a naive future time without content, and 15:00 UTC.\<close>

definition edit_req :: PostCreate where
  "edit_req =
     \<lparr>req_content = Some ''edited'',
      req_image_url = None,
      req_scheduled_time = None,
      req_publish_to_twitter = Some False,
      req_publish_to_instagram = Some False,
      req_publish_to_facebook = Some False,
      req_publish_to_pinterest = Some False\<rparr>"

definition naive_future_req :: PostCreate where
  "naive_future_req =
     \<lparr>req_content = None,
      req_image_url = None,
      req_scheduled_time = Some \<lparr>wall = t_1500, tzinfo = None\<rparr>,
      req_publish_to_twitter = Some True,
      req_publish_to_instagram = Some False,
      req_publish_to_facebook = Some False,
      req_publish_to_pinterest = Some False\<rparr>"

definition last_hour_req :: PostCreate where
  "last_hour_req =
     naive_future_req\<lparr>req_content := Some ''hello'',
                      req_scheduled_time := Some \<lparr>wall = w_last_hour, tzinfo = None\<rparr>\<rparr>"

definition naive_past_req :: PostCreate where
  "naive_past_req = naive_future_req\<lparr>req_scheduled_time := Some \<lparr>wall = t_1000, tzinfo = None\<rparr>\<rparr>"

definition utc_past_req :: PostCreate where
  "utc_past_req =
     naive_future_req\<lparr>req_content := Some ''hello'',
                      req_scheduled_time := Some \<lparr>wall = t_1500, tzinfo = Some (FixedOffset 0)\<rparr>\<rparr>"

section \<open>The coordinator\<close>

lemma getitem_rebuilt:
  "getitem (rebuild_platforms d) ''twitter'' = Inr (targeted d Twitter)"
  "getitem (rebuild_platforms d) ''instagram'' = Inr (targeted d Instagram)"
  "getitem (rebuild_platforms d) ''facebook'' = Inr (targeted d Facebook)"
  "getitem (rebuild_platforms d) ''pinterest'' = Inr (targeted d Pinterest)"
  by (simp_all add: getitem_def rebuild_platforms_def targeted_def)

lemma twitter_block_rebuilt:
  "twitter_block cl c i (rebuild_platforms d) st =
     Inr (if targeted d Twitter
          then \<lparr>results = (results st)(''twitter_post_id'' \<mapsto> recorded_id cl Twitter c i),
                calls = calls st @ [(Twitter, c, i)]\<rparr>
          else st)"
  by (simp add: twitter_block_def getitem_rebuilt bind_exn_def Let_def split: sum.splits)

lemma instagram_block_rebuilt:
  "instagram_block cl c i (rebuild_platforms d) st =
     Inr (if targeted d Instagram
          then \<lparr>results = (results st)(''instagram_post_id'' \<mapsto> recorded_id cl Instagram c i),
                calls = calls st @ [(Instagram, c, i)]\<rparr>
          else st)"
  by (simp add: instagram_block_def getitem_rebuilt bind_exn_def Let_def split: sum.splits)

lemma facebook_block_rebuilt:
  "facebook_block cl c i (rebuild_platforms d) st =
     Inr (if targeted d Facebook
          then \<lparr>results = (results st)(''facebook_post_id'' \<mapsto> recorded_id cl Facebook c i),
                calls = calls st @ [(Facebook, c, i)]\<rparr>
          else st)"
  by (simp add: facebook_block_def getitem_rebuilt bind_exn_def Let_def split: sum.splits)

lemma pinterest_block_rebuilt:
  "pinterest_block cl c i (rebuild_platforms d) st =
     Inr (if targeted d Pinterest
          then \<lparr>results = (results st)(''pinterest_post_id'' \<mapsto> recorded_id cl Pinterest c i),
                calls = calls st @ [(Pinterest, c, i)]\<rparr>
          else st)"
  by (simp add: pinterest_block_def getitem_rebuilt bind_exn_def Let_def split: sum.splits)

text \<open>
  The coordinator in closed form: it always returns, the clients it invokes are the
  targeted ones in source order, and each targeted platform's key holds what its client
  produced.
\<close>

lemma post_to_platforms_eq:
  "post_to_platforms cl c i d =
     Inr \<lparr>results =
            (\<lambda>k. if k = ''pinterest_post_id'' \<and> targeted d Pinterest
                    then Some (recorded_id cl Pinterest c i)
                  else if k = ''facebook_post_id'' \<and> targeted d Facebook
                    then Some (recorded_id cl Facebook c i)
                  else if k = ''instagram_post_id'' \<and> targeted d Instagram
                    then Some (recorded_id cl Instagram c i)
                  else if k = ''twitter_post_id'' \<and> targeted d Twitter
                    then Some (recorded_id cl Twitter c i)
                  else None),
          calls = map (\<lambda>k. (k, c, i))
                    (filter (targeted d) [Twitter, Instagram, Facebook, Pinterest])\<rparr>"
  unfolding post_to_platforms_def Let_def
    twitter_block_rebuilt instagram_block_rebuilt facebook_block_rebuilt pinterest_block_rebuilt
    bind_exn_def sum.case
  by (auto simp: fun_eq_iff)

lemma results_at_result_key:
  assumes "post_to_platforms cl c i d = Inr st"
  shows "results st (result_key k) = (if targeted d k then Some (recorded_id cl k c i) else None)"
  using assms unfolding post_to_platforms_eq
  by (cases k) auto

lemma recorded_id_raises: "client_raises cl k c i \<Longrightarrow> recorded_id cl k c i = None"
  by (cases k) (auto split: sum.splits)

lemma not_targeted_short_keys:
  assumes "dom d \<subseteq> {''twitter'', ''instagram'', ''facebook'', ''pinterest''}"
  shows "\<not> targeted d k"
proof -
  have "flag_key k \<notin> {''twitter'', ''instagram'', ''facebook'', ''pinterest''}"
    by (cases k) simp_all
  with assms have "d (flag_key k) = None"
    by (meson domIff subsetD)
  then show ?thesis
    by (simp add: targeted_def dict_get_def)
qed

lemma post_to_platforms_short_keys:
  assumes "dom d \<subseteq> {''twitter'', ''instagram'', ''facebook'', ''pinterest''}"
  shows "post_to_platforms cl c i d = Inr \<lparr>results = Map.empty, calls = []\<rparr>"
  by (simp add: post_to_platforms_eq not_targeted_short_keys [OF assms] fun_eq_iff)

lemma dom_platforms_of:
  "dom (platforms_of p) \<subseteq> {''twitter'', ''instagram'', ''facebook'', ''pinterest''}"
  by (auto simp: platforms_of_def split: if_splits)

lemma post_to_platforms_platforms_of:
  "post_to_platforms cl c i (platforms_of p) = Inr \<lparr>results = Map.empty, calls = []\<rparr>"
  by (rule post_to_platforms_short_keys [OF dom_platforms_of])

text \<open>
  Claim C1 (the fan-out invokes exactly the clients whose flag is true) does not hold of
  the code: handed the flags \<open>{twitter: true, instagram: false, facebook: true,
  pinterest: false}\<close> under the platform names, which is how both callers key them, the
  coordinator invokes no client at all, although the twitter client would have returned
  an id. It reads the flags under \<open>publish_to_<name>\<close>.
\<close>

theorem C1_flags_by_platform_name_invoke_nothing:
  "post_to_platforms ex_clients (Some ''hello'') (Some ''http://img/1.png'')
     [''twitter'' \<mapsto> PyBool True, ''instagram'' \<mapsto> PyBool False,
      ''facebook'' \<mapsto> PyBool True, ''pinterest'' \<mapsto> PyBool False]
   = Inr \<lparr>results = Map.empty, calls = []\<rparr>"
  by (rule post_to_platforms_short_keys) auto

text \<open>
  Claim C4 (isolation of platform failures). For every set of clients and every
  \<open>platforms\<close> argument, \<open>post_to_platforms\<close> returns (no exception escapes it); it
  invokes the client of every platform it reads as targeted, in the order twitter,
  instagram, facebook, pinterest, whatever the other clients did; it records under each
  targeted platform's key what that client produced and nothing under the others; and
  a targeted client that raised leaves null under its own key.
\<close>

theorem C4_client_failure_isolated:
  "\<exists>st. post_to_platforms cl c i platforms = Inr st
     \<and> calls st = map (\<lambda>k. (k, c, i))
                    (filter (targeted platforms) [Twitter, Instagram, Facebook, Pinterest])
     \<and> (\<forall>k. results st (result_key k) =
              (if targeted platforms k then Some (recorded_id cl k c i) else None))
     \<and> (\<forall>k. targeted platforms k \<and> client_raises cl k c i
              \<longrightarrow> results st (result_key k) = Some None)"
proof -
  obtain st where st: "post_to_platforms cl c i platforms = Inr st"
    and cs: "calls st = map (\<lambda>k. (k, c, i))
                    (filter (targeted platforms) [Twitter, Instagram, Facebook, Pinterest])"
    unfolding post_to_platforms_eq by simp
  have r: "\<forall>k. results st (result_key k) =
              (if targeted platforms k then Some (recorded_id cl k c i) else None)"
    using results_at_result_key [OF st] by blast
  then have "\<forall>k. targeted platforms k \<and> client_raises cl k c i
              \<longrightarrow> results st (result_key k) = Some None"
    by (simp add: recorded_id_raises)
  with st cs r show ?thesis by blast
qed

text \<open>
  The example of the claim: the facebook client raises, the twitter client returns the
  id 123, both targeted.
\<close>

theorem C4_witness:
  "\<exists>st. post_to_platforms ex_clients (Some ''hello'') (Some ''http://img/1.png'')
          [''publish_to_twitter'' \<mapsto> PyBool True, ''publish_to_facebook'' \<mapsto> PyBool True] = Inr st
     \<and> calls st = [(Twitter, Some ''hello'', Some ''http://img/1.png''),
                   (Facebook, Some ''hello'', Some ''http://img/1.png'')]
     \<and> results st ''twitter_post_id'' = Some (Some ''123'')
     \<and> client_raises ex_clients Facebook (Some ''hello'') (Some ''http://img/1.png'')
     \<and> results st ''facebook_post_id'' = Some None
     \<and> results st ''instagram_post_id'' = None
     \<and> results st ''pinterest_post_id'' = None"
proof -
  let ?d = "[''publish_to_twitter'' \<mapsto> PyBool True, ''publish_to_facebook'' \<mapsto> PyBool True]"
  let ?c = "Some ''hello''"
  let ?i = "Some ''http://img/1.png''"
  have t: "targeted ?d Twitter" "\<not> targeted ?d Instagram"
          "targeted ?d Facebook" "\<not> targeted ?d Pinterest"
    by (simp_all add: targeted_def dict_get_def)
  have f: "client_raises ex_clients Facebook ?c ?i"
    by (simp add: ex_clients_def)
  obtain st where st: "post_to_platforms ex_clients ?c ?i ?d = Inr st"
    and c: "calls st = map (\<lambda>k. (k, ?c, ?i))
               (filter (targeted ?d) [Twitter, Instagram, Facebook, Pinterest])"
    and r: "\<forall>k. results st (result_key k) =
              (if targeted ?d k then Some (recorded_id ex_clients k ?c ?i) else None)"
    and x: "\<forall>k. targeted ?d k \<and> client_raises ex_clients k ?c ?i
              \<longrightarrow> results st (result_key k) = Some None"
    using C4_client_failure_isolated [of ex_clients ?c ?i ?d]
    by blast
  from r [rule_format, of Twitter] r [rule_format, of Instagram]
       r [rule_format, of Pinterest] t
  have "results st ''twitter_post_id'' = Some (Some ''123'')"
       "results st ''instagram_post_id'' = None"
       "results st ''pinterest_post_id'' = None"
    by (simp_all add: ex_clients_def)
  moreover from x [rule_format, of Facebook] t f
  have "results st ''facebook_post_id'' = Some None"
    by simp
  moreover from c t have "calls st = [(Twitter, ?c, ?i), (Facebook, ?c, ?i)]"
    by simp
  ultimately show ?thesis using st f by blast
qed

section \<open>The table\<close>

lemma find_map_same_id:
  assumes "\<And>p. post_id (f p) = post_id p"
  shows "find (\<lambda>p. post_id p = i) (map f xs) = map_option f (find (\<lambda>p. post_id p = i) xs)"
  by (induction xs) (simp_all add: assms)

lemma get_row_update_where_id:
  assumes "\<And>p. post_id (f p) = post_id p"
  shows "get_row (update_where_id j f s) i =
           map_option (\<lambda>p. if post_id p = j then f p else p) (get_row s i)"
proof -
  have "\<And>p. post_id (if post_id p = j then f p else p) = post_id p"
    by (simp add: assms)
  then show ?thesis
    unfolding get_row_def update_where_id_def
    by (simp add: find_map_same_id [where f = "\<lambda>p. if post_id p = j then f p else p"])
qed

lemma get_row_post_id: "get_row s i = Some p \<Longrightarrow> post_id p = i"
  by (auto simp: get_row_def find_Some_iff)

lemma get_row_in_rows: "get_row s i = Some p \<Longrightarrow> p \<in> set (rows s)"
  by (auto simp: get_row_def find_Some_iff)

lemma get_row_update_same:
  assumes "\<And>p. post_id (f p) = post_id p" and "get_row s i = Some p"
  shows "get_row (update_where_id i f s) i = Some (f p)"
  using get_row_post_id [OF assms(2)]
  by (simp add: get_row_update_where_id [of f, OF assms(1)] assms(2))

section \<open>Cancel and uncancel\<close>

text \<open>
  Claim C10. For every existing post, cancel followed by uncancel both succeed, and the
  post then has \<open>is_canceled = 0\<close> and the content, image url, scheduled time, target
  flags, \<open>is_draft\<close>, \<open>is_published\<close> and per-platform ids it had before the cancel:
  it is the old row with \<open>is_canceled\<close> cleared and \<open>updated_at\<close> stamped.
\<close>

theorem C10_cancel_then_uncancel:
  assumes "get_row s i = Some p"
  shows "\<exists>m1 m2 p'.
           snd (cancel_post e1 i s) = Inr m1
         \<and> snd (uncancel_post e2 i (fst (cancel_post e1 i s))) = Inr m2
         \<and> get_row (fst (uncancel_post e2 i (fst (cancel_post e1 i s)))) i = Some p'
         \<and> p' = p\<lparr>is_canceled := 0, updated_at := current_timestamp e2\<rparr>
         \<and> is_canceled p' = 0
         \<and> content p' = content p \<and> image_url p' = image_url p
         \<and> scheduled_time p' = scheduled_time p
         \<and> publish_to_twitter p' = publish_to_twitter p
         \<and> publish_to_instagram p' = publish_to_instagram p
         \<and> publish_to_facebook p' = publish_to_facebook p
         \<and> publish_to_pinterest p' = publish_to_pinterest p
         \<and> is_draft p' = is_draft p \<and> is_published p' = is_published p
         \<and> twitter_post_id p' = twitter_post_id p
         \<and> instagram_post_id p' = instagram_post_id p
         \<and> facebook_post_id p' = facebook_post_id p
         \<and> pinterest_post_id p' = pinterest_post_id p"
proof -
  let ?c = "\<lambda>p. p\<lparr>is_canceled := 1, updated_at := current_timestamp e1\<rparr>"
  let ?u = "\<lambda>p. p\<lparr>is_canceled := 0, updated_at := current_timestamp e2\<rparr>"
  let ?s1 = "update_where_id i ?c s"
  have c: "cancel_post e1 i s = (?s1, Inr ''Post canceled successfully'')"
    by (simp add: cancel_post_def assms)
  have g1: "get_row ?s1 i = Some (?c p)"
    by (rule get_row_update_same) (simp_all add: assms)
  have u: "uncancel_post e2 i ?s1 =
             (update_where_id i ?u ?s1, Inr ''Post unscheduled (uncanceled) successfully'')"
    by (simp add: uncancel_post_def g1)
  have g2: "get_row (update_where_id i ?u ?s1) i = Some (?u (?c p))"
    by (rule get_row_update_same) (simp_all add: g1)
  have "?u (?c p) = ?u p" by simp
  with g2 have "get_row (fst (uncancel_post e2 i (fst (cancel_post e1 i s)))) i = Some (?u p)"
    by (simp add: c u)
  then show ?thesis
    by (simp add: c u)
qed

theorem C10_witness:
  "get_row ex_store 1 = Some ex_post
   \<and> get_row (fst (uncancel_post ex_env 1 (fst (cancel_post ex_env 1 ex_store)))) 1
       = Some (ex_post\<lparr>updated_at := ''2030-01-01 18:00:00''\<rparr>)"
proof -
  have h: "get_row ex_store 1 = Some ex_post"
    by (simp add: get_row_def ex_store_def ex_post_def)
  have "ex_post\<lparr>is_canceled := 0, updated_at := current_timestamp ex_env\<rparr>
          = ex_post\<lparr>updated_at := ''2030-01-01 18:00:00''\<rparr>"
    by (simp add: ex_post_def ex_env_def)
  with C10_cancel_then_uncancel [OF h, of ex_env ex_env] h show ?thesis
    by auto
qed

section \<open>The due-post sweep\<close>

lemmas ex_times = cst_def t_1000_def t_1200_def t_1500_def t_1800_def t_2100_def

lemma post_id_published_null [simp]: "post_id (published_null e p) = post_id p"
  by (simp add: published_null_def)

lemma is_published_published_null [simp]: "is_published (published_null e p) = 1"
  by (simp add: published_null_def)

lemma published_null_idem [simp]: "published_null e (published_null e p) = published_null e p"
  by (simp add: published_null_def)

lemma mark_published_empty:
  "mark_published e i Map.empty s = update_where_id i (published_null e) s"
  by (simp add: mark_published_def results_get_def published_null_def [abs_def])

lemma sweep_step_eq:
  "sweep_step e sw p =
     \<lparr>sw_store = update_where_id (post_id p) (published_null e) (sw_store sw),
      sw_fanouts = sw_fanouts sw @ [post_id p],
      sw_calls = sw_calls sw\<rparr>"
  by (simp add: sweep_step_def post_to_platforms_platforms_of mark_published_empty)

lemma foldl_sweep_step:
  "foldl (sweep_step e) sw ps =
     \<lparr>sw_store = (sw_store sw)\<lparr>rows :=
         map (\<lambda>q. if post_id q \<in> post_id ` set ps then published_null e q else q)
           (rows (sw_store sw))\<rparr>,
      sw_fanouts = sw_fanouts sw @ map post_id ps,
      sw_calls = sw_calls sw\<rparr>"
proof (induction ps arbitrary: sw)
  case Nil
  then show ?case by simp
next
  case (Cons p ps)
  have m: "(\<lambda>q. if post_id q \<in> post_id ` set ps then published_null e q else q) \<circ>
             (\<lambda>q. if post_id q = post_id p then published_null e q else q)
         = (\<lambda>q. if post_id q = post_id p \<or> post_id q \<in> post_id ` set ps
                then published_null e q else q)"
    by (auto simp: fun_eq_iff)
  have "foldl (sweep_step e) sw (p # ps) = foldl (sweep_step e) (sweep_step e sw p) ps"
    by simp
  also have "\<dots> =
     \<lparr>sw_store = (sw_store (sweep_step e sw p))\<lparr>rows :=
         map (\<lambda>q. if post_id q \<in> post_id ` set ps then published_null e q else q)
           (rows (sw_store (sweep_step e sw p)))\<rparr>,
      sw_fanouts = sw_fanouts (sweep_step e sw p) @ map post_id ps,
      sw_calls = sw_calls (sweep_step e sw p)\<rparr>"
    by (rule Cons.IH)
  also have "\<dots> =
     \<lparr>sw_store = (sw_store sw)\<lparr>rows :=
         map (\<lambda>q. if post_id q \<in> post_id ` set (p # ps) then published_null e q else q)
           (rows (sw_store sw))\<rparr>,
      sw_fanouts = sw_fanouts sw @ map post_id (p # ps),
      sw_calls = sw_calls sw\<rparr>"
    unfolding sweep_step_eq update_where_id_def
    by (simp add: m)
  finally show ?case .
qed

lemma publish_due_tweets_eq:
  "publish_due_tweets e s =
     \<lparr>sw_store = s\<lparr>rows :=
         map (\<lambda>q. if post_id q \<in> post_id ` set (due_posts e s) then published_null e q else q)
           (rows s)\<rparr>,
      sw_fanouts = map post_id (due_posts e s),
      sw_calls = []\<rparr>"
  by (simp add: publish_due_tweets_def foldl_sweep_step)

lemma due_posts_iff:
  "p \<in> set (due_posts e s) \<longleftrightarrow> p \<in> set (rows s) \<and> due (isoformat (now_chicago e)) p"
  by (simp add: due_posts_def)

lemma not_due_published_null: "\<not> due now (published_null e p)"
  by (simp add: due_def)

lemma due_examples:
  "due (isoformat (now_chicago ex_env)) ex_post"
  "\<not> due (isoformat (now_chicago ex_env)) future_post"
  "due (isoformat (now_chicago later_env)) ex_post"
  "\<not> due (isoformat (now_chicago later_env)) future_post"
  by (simp_all add: due_def text_le_def isoformat_def now_chicago_def ex_env_def later_env_def
        ex_post_def future_post_def ex_times)

lemma due_posts_ex_store: "due_posts ex_env ex_store = [ex_post]"
  by (simp add: due_posts_def ex_store_def due_examples)

lemma text_le_now:
  "text_le (IsoText w off) (isoformat (now_chicago e)) \<longleftrightarrow>
     w < clock e + chicago_at_utc e (clock e)
     \<or> (w = clock e + chicago_at_utc e (clock e)
        \<and> (case off of
              None \<Rightarrow> True
            | Some k \<Rightarrow>
                if 0 \<le> k
                then chicago_at_utc e (clock e) < 0 \<or> k \<le> chicago_at_utc e (clock e)
                else chicago_at_utc e (clock e) < 0 \<and> chicago_at_utc e (clock e) \<le> k))"
  by (cases off) (auto simp: text_le_def isoformat_def now_chicago_def)

lemma due_iff_text:
  "due (isoformat (now_chicago e)) p \<longleftrightarrow>
     is_draft p = 0 \<and> is_published p = 0 \<and> is_canceled p = 0
     \<and> (\<exists>w off. scheduled_time p = Some (IsoText w off)
            \<and> text_le (IsoText w off) (isoformat (now_chicago e)))"
proof (cases "scheduled_time p")
  case None
  then show ?thesis by (simp add: due_def)
next
  case (Some t)
  then show ?thesis by (cases t) (auto simp: due_def)
qed

text \<open>
  Claim C3 as stated (selected if and only if the flags are 0 and
  \<open>scheduled_time <= now\<close>) fails where the stored text and the current time carry
  different offsets. On the night Chicago falls back, a post scheduled for 01:45, which
  \<open>replace(tzinfo=...)\<close> stores with UTC-05:00 and so denotes 06:45 UTC, is not
  selected at 07:30 UTC, three quarters of an hour after it fell due: the query
  compares the texts, and the clock reads 01:30 again.
\<close>

theorem C3_counterexample:
  "isoformat (replace_chicago fallback_env \<lparr>wall = w_0145, tzinfo = None\<rparr>)
     = IsoText w_0145 (Some cdt)
   \<and> rows overdue_store = [overdue_post]
   \<and> scheduled_time overdue_post = Some (IsoText w_0145 (Some cdt))
   \<and> is_draft overdue_post = 0 \<and> is_published overdue_post = 0
   \<and> is_canceled overdue_post = 0
   \<and> text_instant (IsoText w_0145 (Some cdt)) = Some u_0645
   \<and> clock fallback_env = u_0730
   \<and> u_0645 \<le> u_0730
   \<and> isoformat (now_chicago fallback_env) = IsoText w_0130 (Some cst)
   \<and> due_posts fallback_env overdue_store = []"
proof -
  have a: "isoformat (replace_chicago fallback_env \<lparr>wall = w_0145, tzinfo = None\<rparr>)
     = IsoText w_0145 (Some cdt)"
    by (simp add: isoformat_def replace_chicago_def fallback_env_def w_0145_def w_0200_def)
  have f: "scheduled_time overdue_post = Some (IsoText w_0145 (Some cdt))"
    "is_draft overdue_post = 0" "is_published overdue_post = 0" "is_canceled overdue_post = 0"
    by (simp_all add: overdue_post_def ex_post_def)
  have i: "text_instant (IsoText w_0145 (Some cdt)) = Some u_0645"
    by (simp add: text_instant_def w_0145_def cdt_def u_0645_def)
  have c: "clock fallback_env = u_0730"
    by (simp add: fallback_env_def)
  have l: "u_0645 \<le> u_0730"
    by (simp add: u_0645_def u_0730_def)
  have n: "isoformat (now_chicago fallback_env) = IsoText w_0130 (Some cst)"
    by (simp add: isoformat_def now_chicago_def fallback_env_def u_0730_def u_0700_def
          cst_def w_0130_def)
  have "\<not> text_le (IsoText w_0145 (Some cdt)) (IsoText w_0130 (Some cst))"
    by (simp add: text_le_def w_0145_def w_0130_def)
  then have d: "due_posts fallback_env overdue_store = []"
    by (simp add: due_posts_def overdue_store_def due_def f n)
  have r: "rows overdue_store = [overdue_post]"
    by (simp add: overdue_store_def)
  from a r f i c l n d show ?thesis by (intro conjI)
qed

text \<open>
  Claim C3, amended. A post is selected by the due query if and only if it is a row of
  the table with \<open>is_draft = 0\<close>, \<open>is_published = 0\<close>, \<open>is_canceled = 0\<close> and a
  \<open>scheduled_time\<close> that is present and whose text is at most \<open>now_cst.isoformat()\<close>
  in SQLite's text order: its wall-clock reading is earlier than the current Chicago
  reading, or equal to it with an offset suffix that does not sort after the current
  one. For a stored text that spells the offset Chicago has now, that is: the scheduled
  instant is at most now. For a text with any offset, a selected post's instant is at
  most now plus the difference between the current and the stored offset, and a
  post whose instant is below that bound is selected.
\<close>

theorem C3_due_query_compares_texts:
  "(p \<in> set (due_posts e s) \<longleftrightarrow>
      p \<in> set (rows s) \<and> is_draft p = 0 \<and> is_published p = 0 \<and> is_canceled p = 0
      \<and> (\<exists>w off. scheduled_time p = Some (IsoText w off)
             \<and> (w < clock e + chicago_at_utc e (clock e)
                \<or> (w = clock e + chicago_at_utc e (clock e)
                   \<and> (case off of
                         None \<Rightarrow> True
                       | Some k \<Rightarrow>
                           if 0 \<le> k
                           then chicago_at_utc e (clock e) < 0 \<or> k \<le> chicago_at_utc e (clock e)
                           else chicago_at_utc e (clock e) < 0
                                \<and> chicago_at_utc e (clock e) \<le> k)))))
   \<and> (\<forall>w. scheduled_time p = Some (IsoText w (Some (chicago_at_utc e (clock e)))) \<longrightarrow>
          (p \<in> set (due_posts e s) \<longleftrightarrow>
             p \<in> set (rows s) \<and> is_draft p = 0 \<and> is_published p = 0 \<and> is_canceled p = 0
             \<and> w - chicago_at_utc e (clock e) \<le> clock e))
   \<and> (\<forall>w k. scheduled_time p = Some (IsoText w (Some k)) \<and> p \<in> set (due_posts e s) \<longrightarrow>
          w - k \<le> clock e + (chicago_at_utc e (clock e) - k))
   \<and> (\<forall>w k. scheduled_time p = Some (IsoText w (Some k)) \<and> p \<in> set (rows s)
            \<and> is_draft p = 0 \<and> is_published p = 0 \<and> is_canceled p = 0
            \<and> w - k < clock e + (chicago_at_utc e (clock e) - k) \<longrightarrow>
          p \<in> set (due_posts e s))"
proof -
  have a: "p \<in> set (due_posts e s) \<longleftrightarrow>
      p \<in> set (rows s) \<and> is_draft p = 0 \<and> is_published p = 0 \<and> is_canceled p = 0
      \<and> (\<exists>w off. scheduled_time p = Some (IsoText w off)
             \<and> (w < clock e + chicago_at_utc e (clock e)
                \<or> (w = clock e + chicago_at_utc e (clock e)
                   \<and> (case off of
                         None \<Rightarrow> True
                       | Some k \<Rightarrow>
                           if 0 \<le> k
                           then chicago_at_utc e (clock e) < 0 \<or> k \<le> chicago_at_utc e (clock e)
                           else chicago_at_utc e (clock e) < 0
                                \<and> chicago_at_utc e (clock e) \<le> k))))"
    unfolding due_posts_iff due_iff_text text_le_now by blast
  have b: "\<forall>w. scheduled_time p = Some (IsoText w (Some (chicago_at_utc e (clock e)))) \<longrightarrow>
          (p \<in> set (due_posts e s) \<longleftrightarrow>
             p \<in> set (rows s) \<and> is_draft p = 0 \<and> is_published p = 0 \<and> is_canceled p = 0
             \<and> w - chicago_at_utc e (clock e) \<le> clock e)"
    unfolding a by auto
  have c: "\<forall>w k. scheduled_time p = Some (IsoText w (Some k)) \<and> p \<in> set (due_posts e s) \<longrightarrow>
          w - k \<le> clock e + (chicago_at_utc e (clock e) - k)"
    unfolding a by auto
  have d: "\<forall>w k. scheduled_time p = Some (IsoText w (Some k)) \<and> p \<in> set (rows s)
            \<and> is_draft p = 0 \<and> is_published p = 0 \<and> is_canceled p = 0
            \<and> w - k < clock e + (chicago_at_utc e (clock e) - k) \<longrightarrow>
          p \<in> set (due_posts e s)"
    unfolding a by auto
  from a b c d show ?thesis by (intro conjI)
qed

theorem C3_witness:
  "scheduled_time ex_post = Some (IsoText t_1000 (Some cst))
   \<and> chicago_at_utc ex_env (clock ex_env) = cst
   \<and> t_1000 - cst \<le> clock ex_env
   \<and> ex_post \<in> set (due_posts ex_env ex_store)
   \<and> scheduled_time future_post = Some (IsoText t_1500 (Some cst))
   \<and> clock ex_env < t_1500 - cst
   \<and> future_post \<notin> set (due_posts ex_env ex_store)
   \<and> published_post \<notin> set (due_posts ex_env published_store)"
proof -
  have off: "chicago_at_utc ex_env (clock ex_env) = cst"
    by (simp add: ex_env_def)
  have sp: "scheduled_time ex_post = Some (IsoText t_1000 (Some cst))"
    "is_draft ex_post = 0" "is_published ex_post = 0" "is_canceled ex_post = 0"
    by (simp_all add: ex_post_def)
  have sf: "scheduled_time future_post = Some (IsoText t_1500 (Some cst))"
    by (simp add: future_post_def)
  have m: "ex_post \<in> set (rows ex_store)" "future_post \<in> set (rows ex_store)"
    by (simp_all add: ex_store_def)
  have l: "t_1000 - cst \<le> clock ex_env" "clock ex_env < t_1500 - cst"
    by (simp_all add: ex_env_def ex_times)
  note i2 = C3_due_query_compares_texts [of ex_post ex_env ex_store,
              THEN conjunct2, THEN conjunct1, rule_format, of t_1000]
  from i2 sp m l off have a: "ex_post \<in> set (due_posts ex_env ex_store)"
    by simp
  note j2 = C3_due_query_compares_texts [of future_post ex_env ex_store,
              THEN conjunct2, THEN conjunct1, rule_format, of t_1500]
  from j2 sf l off have b: "future_post \<notin> set (due_posts ex_env ex_store)"
    by simp
  note k1 = C3_due_query_compares_texts [of published_post ex_env published_store,
              THEN conjunct1]
  have "is_published published_post \<noteq> 0"
    by (simp add: published_post_def)
  with k1 have c: "published_post \<notin> set (due_posts ex_env published_store)"
    by blast
  from sp(1) off l(1) a sf l(2) b c show ?thesis by (intro conjI)
qed

text \<open>
  Claim C6. Let the sweep run, and run again on the store the first run left, at a time
  at which no row of the original store is due that was not due at the first run. Every
  post the first run selected has \<open>is_published = 1\<close> afterwards; the due query of the
  second run selects nothing, so the second run invokes neither the coordinator nor any
  platform client.
\<close>

theorem C6_second_sweep_publishes_nothing:
  assumes "\<forall>p \<in> set (rows s).
             due (isoformat (now_chicago e2)) p \<longrightarrow> due (isoformat (now_chicago e1)) p"
  shows "(\<forall>p \<in> set (due_posts e1 s).
            \<forall>p' \<in> set (rows (sw_store (publish_due_tweets e1 s))).
              post_id p' = post_id p \<longrightarrow> is_published p' = 1)
       \<and> due_posts e2 (sw_store (publish_due_tweets e1 s)) = []
       \<and> sw_fanouts (publish_due_tweets e2 (sw_store (publish_due_tweets e1 s))) = []
       \<and> sw_calls (publish_due_tweets e2 (sw_store (publish_due_tweets e1 s))) = []"
proof -
  let ?s1 = "sw_store (publish_due_tweets e1 s)"
  let ?ids = "post_id ` set (due_posts e1 s)"
  have rows1: "rows ?s1 =
      map (\<lambda>q. if post_id q \<in> ?ids then published_null e1 q else q) (rows s)"
    by (simp add: publish_due_tweets_eq)
  have marked: "\<forall>p \<in> set (due_posts e1 s). \<forall>p' \<in> set (rows ?s1).
              post_id p' = post_id p \<longrightarrow> is_published p' = 1"
  proof (intro ballI impI)
    fix p p' assume p: "p \<in> set (due_posts e1 s)" and p': "p' \<in> set (rows ?s1)"
      and eq: "post_id p' = post_id p"
    from p' obtain q where q: "q \<in> set (rows s)"
      and p'q: "p' = (if post_id q \<in> ?ids then published_null e1 q else q)"
      unfolding rows1 by auto
    have "post_id p' = post_id q" using p'q by simp
    with eq p have "post_id q \<in> ?ids" by force
    with p'q show "is_published p' = 1" by simp
  qed
  have none: "due_posts e2 ?s1 = []"
  proof -
    have "\<not> due (isoformat (now_chicago e2)) p'" if "p' \<in> set (rows ?s1)" for p'
    proof -
      from that obtain q where q: "q \<in> set (rows s)"
        and p'q: "p' = (if post_id q \<in> ?ids then published_null e1 q else q)"
        unfolding rows1 by auto
      show ?thesis
      proof (cases "post_id q \<in> ?ids")
        case True
        with p'q show ?thesis by (simp add: not_due_published_null)
      next
        case False
        with p'q have "p' = q" by simp
        moreover have "\<not> due (isoformat (now_chicago e1)) q"
          using False q by (auto simp: due_posts_iff)
        ultimately show ?thesis using assms q by blast
      qed
    qed
    then show ?thesis
      by (simp add: due_posts_def filter_empty_conv)
  qed
  from marked none show ?thesis
    by (simp add: publish_due_tweets_eq)
qed

theorem C6_witness:
  "due_posts ex_env ex_store = [ex_post]
   \<and> sw_fanouts (publish_due_tweets ex_env ex_store) = [1]
   \<and> due_posts later_env (sw_store (publish_due_tweets ex_env ex_store)) = []
   \<and> sw_fanouts (publish_due_tweets later_env (sw_store (publish_due_tweets ex_env ex_store))) = []
   \<and> sw_calls (publish_due_tweets later_env (sw_store (publish_due_tweets ex_env ex_store))) = []"
proof -
  have h: "\<forall>p \<in> set (rows ex_store).
             due (isoformat (now_chicago later_env)) p \<longrightarrow> due (isoformat (now_chicago ex_env)) p"
    by (simp add: ex_store_def due_examples)
  have f: "sw_fanouts (publish_due_tweets ex_env ex_store) = [1]"
    by (simp add: publish_due_tweets_eq due_posts_ex_store) (simp add: ex_post_def)
  from C6_second_sweep_publishes_nothing [OF h] f due_posts_ex_store show ?thesis
    by simp
qed

section \<open>Publish now\<close>

lemma publish_post_body_missing:
  assumes "get_row s i = None"
  shows "publish_post_body e i s =
     \<lparr>out_store = s, out_calls = [], out_response = Inl (HTTPException 404 ''Post not found'')\<rparr>"
  unfolding publish_post_body_def by (simp add: assms)

lemma publish_post_body_published:
  assumes "get_row s i = Some post" and "is_published post \<noteq> 0"
  shows "publish_post_body e i s =
     \<lparr>out_store = s, out_calls = [],
      out_response = Inl (HTTPException 400 ''Post is already published'')\<rparr>"
  unfolding publish_post_body_def by (simp add: assms)

lemma publish_post_body_future:
  assumes "get_row s i = Some post" and "is_published post = 0" and "is_draft post = 0"
    and "scheduled_in_future e post"
  shows "publish_post_body e i s =
     \<lparr>out_store = s, out_calls = [],
      out_response = Inl (HTTPException 400 ''Post is scheduled for future publication'')\<rparr>"
  unfolding publish_post_body_def by (simp add: assms)

lemma publish_post_body_fanout:
  assumes "get_row s i = Some post" and "is_published post = 0"
    and "is_draft post \<noteq> 0 \<or> \<not> scheduled_in_future e post"
  shows "publish_post_body e i s =
     \<lparr>out_store = mark_published e i Map.empty
         (if is_draft post \<noteq> 0 then update_where_id i (\<lambda>p. p\<lparr>is_draft := 0\<rparr>) s else s),
      out_calls = [],
      out_response = Inr (post, Map.empty)\<rparr>"
  unfolding publish_post_body_def using assms(3)
  by (simp add: assms(1,2) post_to_platforms_platforms_of Let_def)


lemma publish_post_body_cases:
  obtains (missing) "get_row s i = None"
  | (published) post where "get_row s i = Some post" "is_published post \<noteq> 0"
  | (future) post where "get_row s i = Some post" "is_published post = 0" "is_draft post = 0"
      "scheduled_in_future e post"
  | (fanout) post where "get_row s i = Some post" "is_published post = 0"
      "is_draft post \<noteq> 0 \<or> \<not> scheduled_in_future e post"
  by (cases "get_row s i") auto

lemma out_calls_publish_post: "out_calls (publish_post e i s) = []"
proof (cases rule: publish_post_body_cases [where s = s and i = i and e = e])
  case missing
  then show ?thesis by (simp add: publish_post_def publish_post_body_missing)
next
  case (published post)
  then show ?thesis by (simp add: publish_post_def publish_post_body_published)
next
  case (future post)
  then show ?thesis by (simp add: publish_post_def publish_post_body_future)
next
  case (fanout post)
  then show ?thesis by (simp add: publish_post_def publish_post_body_fanout)
qed

lemma publish_post_Inr:
  assumes "out_response (publish_post e i s) = Inr v"
  shows "\<exists>post. get_row s i = Some post \<and> is_published post = 0 \<and> v = (post, Map.empty)
           \<and> (is_draft post \<noteq> 0 \<or> \<not> scheduled_in_future e post)
           \<and> out_store (publish_post e i s) =
               mark_published e i (snd v)
                 (if is_draft post \<noteq> 0 then update_where_id i (\<lambda>p. p\<lparr>is_draft := 0\<rparr>) s else s)"
proof (cases rule: publish_post_body_cases [where s = s and i = i and e = e])
  case missing
  with assms show ?thesis by (simp add: publish_post_def publish_post_body_missing)
next
  case (published post)
  with assms show ?thesis by (simp add: publish_post_def publish_post_body_published)
next
  case (future post)
  with assms show ?thesis by (simp add: publish_post_def publish_post_body_future)
next
  case (fanout post)
  with assms have "v = (post, Map.empty)"
    by (simp add: publish_post_def publish_post_body_fanout)
  with fanout show ?thesis
    by (simp add: publish_post_def publish_post_body_fanout)
qed

lemma publish_post_rejected:
  assumes "get_row s i = Some post"
    and "is_published post \<noteq> 0 \<or> (is_draft post = 0 \<and> scheduled_in_future e post)"
  shows "out_store (publish_post e i s) = s \<and> out_calls (publish_post e i s) = []
       \<and> (\<exists>d. out_response (publish_post e i s) = Inl (HTTPException 500 d))"
proof (cases "is_published post \<noteq> 0")
  case True
  with assms(1) show ?thesis by (simp add: publish_post_def publish_post_body_published)
next
  case False
  with assms show ?thesis by (simp add: publish_post_def publish_post_body_future)
qed

lemma get_row_mark_published:
  assumes "get_row s i = Some p"
  shows "get_row (mark_published e i r s) i =
           Some (p\<lparr>is_published := 1,
                   updated_at := current_timestamp e,
                   twitter_post_id := results_get r ''twitter_post_id'',
                   instagram_post_id := results_get r ''instagram_post_id'',
                   facebook_post_id := results_get r ''facebook_post_id'',
                   pinterest_post_id := results_get r ''pinterest_post_id''\<rparr>)"
  unfolding mark_published_def
  by (rule get_row_update_same) (simp_all add: assms)

lemma get_row_clear_draft:
  assumes "get_row s i = Some p"
  shows "get_row (if is_draft p \<noteq> 0 then update_where_id i (\<lambda>p. p\<lparr>is_draft := 0\<rparr>) s else s) i
           = Some (p\<lparr>is_draft := 0\<rparr>)"
proof (cases "is_draft p \<noteq> 0")
  case True
  then show ?thesis
    using get_row_update_same [of "\<lambda>p. p\<lparr>is_draft := 0\<rparr>" s i p] assms by simp
next
  case False
  then have "p\<lparr>is_draft := 0\<rparr> = p" by simp
  with False assms show ?thesis by simp
qed

lemma publish_post_row:
  assumes "out_response (publish_post e i s) = Inr v"
  shows "\<exists>post. get_row s i = Some post \<and> is_published post = 0 \<and> v = (post, Map.empty)
           \<and> get_row (out_store (publish_post e i s)) i
               = Some (post\<lparr>is_draft := 0, is_published := 1,
                   updated_at := current_timestamp e,
                   twitter_post_id := results_get (snd v) ''twitter_post_id'',
                   instagram_post_id := results_get (snd v) ''instagram_post_id'',
                   facebook_post_id := results_get (snd v) ''facebook_post_id'',
                   pinterest_post_id := results_get (snd v) ''pinterest_post_id''\<rparr>)"
proof -
  from publish_post_Inr [OF assms] obtain post where
    g: "get_row s i = Some post" and u: "is_published post = 0" and v: "v = (post, Map.empty)"
    and st: "out_store (publish_post e i s) =
               mark_published e i (snd v)
                 (if is_draft post \<noteq> 0 then update_where_id i (\<lambda>p. p\<lparr>is_draft := 0\<rparr>) s else s)"
    by blast
  have "get_row (out_store (publish_post e i s)) i
               = Some (post\<lparr>is_draft := 0, is_published := 1,
                   updated_at := current_timestamp e,
                   twitter_post_id := results_get (snd v) ''twitter_post_id'',
                   instagram_post_id := results_get (snd v) ''instagram_post_id'',
                   facebook_post_id := results_get (snd v) ''facebook_post_id'',
                   pinterest_post_id := results_get (snd v) ''pinterest_post_id''\<rparr>)"
    unfolding st by (rule get_row_mark_published [OF get_row_clear_draft [OF g]])
  with g u v show ?thesis by blast
qed

lemma get_row_examples:
  "get_row ex_store 1 = Some ex_post"
  "get_row ex_store 2 = Some future_post"
  "get_row published_store 1 = Some published_post"
  by (simp_all add: get_row_def ex_store_def published_store_def ex_post_def future_post_def
        published_post_def)

lemma future_post_in_future: "scheduled_in_future ex_env future_post"
  by (simp add: scheduled_in_future_def future_post_def ex_post_def now_chicago_def
        replace_chicago_def fromisoformat_def ex_env_def ex_times)

text \<open>
  Claim C7 (publish-now fails with status 400 on an already published post and on a
  non-draft scheduled for the future) does not hold of the code: the
  \<open>HTTPException(400)\<close> is raised inside the \<open>try\<close> whose
  \<open>except Exception\<close> re-raises everything as \<open>HTTPException(500)\<close>. In both cases
  the store is left as it was and no client is invoked, as the claim says.
\<close>

theorem C7_publish_now_rejections_surface_as_500:
  "publish_post ex_env 1 published_store =
     \<lparr>out_store = published_store, out_calls = [],
      out_response =
        Inl (HTTPException 500 ''Failed to publish post: 400: Post is already published'')\<rparr>
   \<and> publish_post ex_env 2 ex_store =
     \<lparr>out_store = ex_store, out_calls = [],
      out_response =
        Inl (HTTPException 500
              ''Failed to publish post: 400: Post is scheduled for future publication'')\<rparr>"
proof -
  have p: "is_published published_post \<noteq> 0"
    by (simp add: published_post_def)
  have f: "is_published future_post = 0" "is_draft future_post = 0"
    by (simp_all add: future_post_def ex_post_def)
  have n: "show_nat 400 = ''400''"
    by simp
  have a: "publish_post ex_env 1 published_store =
     \<lparr>out_store = published_store, out_calls = [],
      out_response =
        Inl (HTTPException 500 ''Failed to publish post: 400: Post is already published'')\<rparr>"
    unfolding publish_post_def publish_post_body_published [OF get_row_examples(3) p]
    by (simp add: n)
  have b: "publish_post ex_env 2 ex_store =
     \<lparr>out_store = ex_store, out_calls = [],
      out_response =
        Inl (HTTPException 500
              ''Failed to publish post: 400: Post is scheduled for future publication'')\<rparr>"
    unfolding publish_post_def
      publish_post_body_future [OF get_row_examples(2) f future_post_in_future]
    by (simp add: n)
  from a b show ?thesis by (rule conjI)
qed

section \<open>What a publish operation leaves behind\<close>

lemma publish_post_fanout:
  assumes "get_row s i = Some post" and "is_published post = 0"
    and "is_draft post \<noteq> 0 \<or> \<not> scheduled_in_future e post"
  shows "publish_post e i s =
     \<lparr>out_store = mark_published e i Map.empty
         (if is_draft post \<noteq> 0 then update_where_id i (\<lambda>p. p\<lparr>is_draft := 0\<rparr>) s else s),
      out_calls = [],
      out_response = Inr (post, Map.empty)\<rparr>"
  unfolding publish_post_def publish_post_body_fanout [OF assms]
  by simp

lemma sweep_step_marks:
  assumes "post_to_platforms (posters e) (content q) (image_url q) (platforms_of q) = Inr st"
  shows "sw_store (sweep_step e sw q) = mark_published e (post_id q) (results st) (sw_store sw)"
  by (simp add: sweep_step_def assms)

lemma rows_after_sweep:
  "rows (sw_store (publish_due_tweets e s)) =
     map (\<lambda>q. if post_id q \<in> post_id ` set (due_posts e s) then published_null e q else q)
       (rows s)"
  by (simp add: publish_due_tweets_eq)

lemma swept_row_published:
  assumes "q \<in> set (due_posts e s)" and "q' \<in> set (rows (sw_store (publish_due_tweets e s)))"
    and "post_id q' = post_id q"
  shows "\<exists>q0 \<in> set (rows s). q' = published_null e q0"
proof -
  from assms(2) obtain q0 where q0: "q0 \<in> set (rows s)"
    and q': "q' = (if post_id q0 \<in> post_id ` set (due_posts e s) then published_null e q0 else q0)"
    unfolding rows_after_sweep by auto
  have "post_id q' = post_id q0" using q' by simp
  with assms(1,3) have "post_id q0 \<in> post_id ` set (due_posts e s)" by force
  with q' q0 show ?thesis by auto
qed

lemma due_post_swept:
  assumes "q \<in> set (due_posts e s)"
  shows "published_null e q \<in> set (rows (sw_store (publish_due_tweets e s)))"
proof -
  from assms have "q \<in> set (rows s)" by (simp add: due_posts_iff)
  moreover from assms have "post_id q \<in> post_id ` set (due_posts e s)" by simp
  ultimately show ?thesis
    unfolding rows_after_sweep by force
qed

lemma ex_post_not_in_future:
  "\<not> scheduled_in_future ex_env ex_post" "\<not> scheduled_in_future fail_env ex_post"
  by (simp_all add: scheduled_in_future_def ex_post_def now_chicago_def replace_chicago_def
        fromisoformat_def ex_env_def fail_env_def ex_times)

lemma due_posts_fail_env: "due_posts fail_env ex_store = due_posts ex_env ex_store"
  by (simp add: due_posts_def now_chicago_def fail_env_def)

lemma results_get_cases:
  "results_get r k = (case r k of Some (Some v) \<Rightarrow> Some v | _ \<Rightarrow> None)"
  by (simp add: results_get_def split: option.splits)

text \<open>
  Claim C5. In both publish operations the post is marked published unconditionally once
  the fan-out has returned. The UPDATE both run turns the row into the same row with
  \<open>is_published = 1\<close>, a fresh \<open>updated_at\<close>, and under each per-platform id column
  the id the result map holds for that platform, null where the map holds null or
  nothing; this for every result map. Whenever publish-now gets past its checks, its
  store is the result of that UPDATE with the results it collected, and the post has
  \<open>is_published = 1\<close> and those ids. In the sweep every step ends in that UPDATE with
  the results it collected, the coordinator is invoked once per due post, and every due
  post has \<open>is_published = 1\<close> afterwards. None of this depends on what the clients do.
\<close>

theorem C5_published_unconditionally:
  "(\<forall>p. get_row s i = Some p \<longrightarrow>
       get_row (mark_published e i r s) i =
         Some (p\<lparr>is_published := 1,
                 updated_at := current_timestamp e,
                 twitter_post_id :=
                   (case r ''twitter_post_id'' of Some (Some v) \<Rightarrow> Some v | _ \<Rightarrow> None),
                 instagram_post_id :=
                   (case r ''instagram_post_id'' of Some (Some v) \<Rightarrow> Some v | _ \<Rightarrow> None),
                 facebook_post_id :=
                   (case r ''facebook_post_id'' of Some (Some v) \<Rightarrow> Some v | _ \<Rightarrow> None),
                 pinterest_post_id :=
                   (case r ''pinterest_post_id'' of Some (Some v) \<Rightarrow> Some v | _ \<Rightarrow> None)\<rparr>))
   \<and> (\<forall>v. out_response (publish_post e i s) = Inr v \<longrightarrow>
         (\<exists>s1. out_store (publish_post e i s) = mark_published e i (snd v) s1)
         \<and> (\<exists>p'. get_row (out_store (publish_post e i s)) i = Some p'
                \<and> is_published p' = 1
                \<and> (\<forall>k. id_field k p' =
                      (case snd v (result_key k) of Some (Some x) \<Rightarrow> Some x | _ \<Rightarrow> None))))
   \<and> (\<forall>sw q st.
         post_to_platforms (posters e) (content q) (image_url q) (platforms_of q) = Inr st \<longrightarrow>
         sw_store (sweep_step e sw q) = mark_published e (post_id q) (results st) (sw_store sw))
   \<and> sw_fanouts (publish_due_tweets e s) = map post_id (due_posts e s)
   \<and> (\<forall>q \<in> set (due_posts e s).
         (\<exists>q' \<in> set (rows (sw_store (publish_due_tweets e s))). post_id q' = post_id q)
         \<and> (\<forall>q' \<in> set (rows (sw_store (publish_due_tweets e s))).
               post_id q' = post_id q \<longrightarrow> is_published q' = 1))"
proof -
  have a: "\<forall>p. get_row s i = Some p \<longrightarrow>
       get_row (mark_published e i r s) i =
         Some (p\<lparr>is_published := 1,
                 updated_at := current_timestamp e,
                 twitter_post_id :=
                   (case r ''twitter_post_id'' of Some (Some v) \<Rightarrow> Some v | _ \<Rightarrow> None),
                 instagram_post_id :=
                   (case r ''instagram_post_id'' of Some (Some v) \<Rightarrow> Some v | _ \<Rightarrow> None),
                 facebook_post_id :=
                   (case r ''facebook_post_id'' of Some (Some v) \<Rightarrow> Some v | _ \<Rightarrow> None),
                 pinterest_post_id :=
                   (case r ''pinterest_post_id'' of Some (Some v) \<Rightarrow> Some v | _ \<Rightarrow> None)\<rparr>)"
    using get_row_mark_published [of s i _ e r]
    by (simp add: results_get_cases)
  have b: "\<forall>v. out_response (publish_post e i s) = Inr v \<longrightarrow>
         (\<exists>s1. out_store (publish_post e i s) = mark_published e i (snd v) s1)
         \<and> (\<exists>p'. get_row (out_store (publish_post e i s)) i = Some p'
                \<and> is_published p' = 1
                \<and> (\<forall>k. id_field k p' =
                      (case snd v (result_key k) of Some (Some x) \<Rightarrow> Some x | _ \<Rightarrow> None)))"
  proof (intro allI impI conjI)
    fix v assume v: "out_response (publish_post e i s) = Inr v"
    from publish_post_Inr [OF v]
    show "\<exists>s1. out_store (publish_post e i s) = mark_published e i (snd v) s1"
      by blast
    from publish_post_row [OF v] obtain post where
      g: "get_row (out_store (publish_post e i s)) i
               = Some (post\<lparr>is_draft := 0, is_published := 1,
                   updated_at := current_timestamp e,
                   twitter_post_id := results_get (snd v) ''twitter_post_id'',
                   instagram_post_id := results_get (snd v) ''instagram_post_id'',
                   facebook_post_id := results_get (snd v) ''facebook_post_id'',
                   pinterest_post_id := results_get (snd v) ''pinterest_post_id''\<rparr>)"
      by blast
    let ?p' = "post\<lparr>is_draft := 0, is_published := 1,
                   updated_at := current_timestamp e,
                   twitter_post_id := results_get (snd v) ''twitter_post_id'',
                   instagram_post_id := results_get (snd v) ''instagram_post_id'',
                   facebook_post_id := results_get (snd v) ''facebook_post_id'',
                   pinterest_post_id := results_get (snd v) ''pinterest_post_id''\<rparr>"
    have "id_field k ?p' =
            (case snd v (result_key k) of Some (Some x) \<Rightarrow> Some x | _ \<Rightarrow> None)" for k
      by (cases k) (simp_all add: results_get_cases)
    with g show "\<exists>p'. get_row (out_store (publish_post e i s)) i = Some p'
                \<and> is_published p' = 1
                \<and> (\<forall>k. id_field k p' =
                      (case snd v (result_key k) of Some (Some x) \<Rightarrow> Some x | _ \<Rightarrow> None))"
      by (intro exI [of _ ?p']) simp
  qed
  have c: "\<forall>sw q st.
         post_to_platforms (posters e) (content q) (image_url q) (platforms_of q) = Inr st \<longrightarrow>
         sw_store (sweep_step e sw q) = mark_published e (post_id q) (results st) (sw_store sw)"
    by (simp add: sweep_step_marks)
  have d: "sw_fanouts (publish_due_tweets e s) = map post_id (due_posts e s)"
    by (simp add: publish_due_tweets_eq)
  have f: "\<forall>q \<in> set (due_posts e s).
         (\<exists>q' \<in> set (rows (sw_store (publish_due_tweets e s))). post_id q' = post_id q)
         \<and> (\<forall>q' \<in> set (rows (sw_store (publish_due_tweets e s))).
               post_id q' = post_id q \<longrightarrow> is_published q' = 1)"
  proof (intro ballI conjI impI)
    fix q assume q: "q \<in> set (due_posts e s)"
    from due_post_swept [OF q]
    show "\<exists>q' \<in> set (rows (sw_store (publish_due_tweets e s))). post_id q' = post_id q"
      by (rule bexI [rotated]) simp
  next
    fix q q'
    assume "q \<in> set (due_posts e s)" "q' \<in> set (rows (sw_store (publish_due_tweets e s)))"
      "post_id q' = post_id q"
    from swept_row_published [OF this] show "is_published q' = 1"
      by auto
  qed
  from a b c d f show ?thesis by (intro conjI)
qed

text \<open>
  At a concrete input, with every client failing. A result map with the twitter id 123
  and a null for facebook puts 123 into the row's twitter column and leaves the others
  null; a map in which both targeted platforms are null still marks the post published.
\<close>

theorem C5_witness:
  "get_row ex_store 1 = Some ex_post
   \<and> get_row (mark_published fail_env 1
         [''twitter_post_id'' \<mapsto> Some ''123'', ''facebook_post_id'' \<mapsto> None] ex_store) 1
       = Some (ex_post\<lparr>is_published := 1, updated_at := ''2030-01-01 18:00:00'',
                       twitter_post_id := Some ''123''\<rparr>)
   \<and> get_row (mark_published fail_env 1
         [''twitter_post_id'' \<mapsto> None, ''facebook_post_id'' \<mapsto> None] ex_store) 1
       = Some (ex_post\<lparr>is_published := 1, updated_at := ''2030-01-01 18:00:00''\<rparr>)
   \<and> out_response (publish_post fail_env 1 ex_store) = Inr (ex_post, Map.empty)
   \<and> map_option is_published (get_row (out_store (publish_post fail_env 1 ex_store)) 1) = Some 1
   \<and> due_posts fail_env ex_store = [ex_post]
   \<and> sw_fanouts (publish_due_tweets fail_env ex_store) = [1]
   \<and> (\<exists>q' \<in> set (rows (sw_store (publish_due_tweets fail_env ex_store))).
         post_id q' = 1 \<and> is_published q' = 1)"
proof -
  let ?r1 = "[''twitter_post_id'' \<mapsto> Some ''123'', ''facebook_post_id'' \<mapsto> (None :: string option)]"
  let ?r = "[''twitter_post_id'' \<mapsto> None, ''facebook_post_id'' \<mapsto> (None :: string option)]"
  note inst1 = C5_published_unconditionally [of ex_store 1 fail_env ?r1]
  note inst = C5_published_unconditionally [of ex_store 1 fail_env ?r]
  note h1 = inst1 [THEN conjunct1, rule_format]
  note i1 = inst [THEN conjunct1, rule_format]
  note i2 = inst [THEN conjunct2, THEN conjunct1, rule_format]
  note i4 = inst [THEN conjunct2, THEN conjunct2, THEN conjunct2, THEN conjunct1]
  note i5 = inst [THEN conjunct2, THEN conjunct2, THEN conjunct2, THEN conjunct2, rule_format]
  have g: "get_row ex_store 1 = Some ex_post"
    by (rule get_row_examples)
  have u: "is_published ex_post = 0" "is_draft ex_post = 0" "post_id ex_post = 1"
    by (simp_all add: ex_post_def)
  have ts: "current_timestamp fail_env = ''2030-01-01 18:00:00''"
    by (simp add: fail_env_def ex_env_def)
  have e1: "ex_post\<lparr>is_published := 1, updated_at := ''2030-01-01 18:00:00'',
          twitter_post_id := Some ''123'', instagram_post_id := None,
          facebook_post_id := None, pinterest_post_id := None\<rparr>
        = ex_post\<lparr>is_published := 1, updated_at := ''2030-01-01 18:00:00'',
                  twitter_post_id := Some ''123''\<rparr>"
    unfolding ex_post_def by simp
  have e2: "ex_post\<lparr>is_published := 1, updated_at := ''2030-01-01 18:00:00'',
          twitter_post_id := None, instagram_post_id := None,
          facebook_post_id := None, pinterest_post_id := None\<rparr>
        = ex_post\<lparr>is_published := 1, updated_at := ''2030-01-01 18:00:00''\<rparr>"
    unfolding ex_post_def by simp
  from h1 [OF g] e1 have a1: "get_row (mark_published fail_env 1 ?r1 ex_store) 1
       = Some (ex_post\<lparr>is_published := 1, updated_at := ''2030-01-01 18:00:00'',
                       twitter_post_id := Some ''123''\<rparr>)"
    by (simp add: ts)
  from i1 [OF g] e2 have a: "get_row (mark_published fail_env 1 ?r ex_store) 1
       = Some (ex_post\<lparr>is_published := 1, updated_at := ''2030-01-01 18:00:00''\<rparr>)"
    by (simp add: ts)
  have v: "out_response (publish_post fail_env 1 ex_store) = Inr (ex_post, Map.empty)"
    using publish_post_fanout [OF g u(1), of fail_env] ex_post_not_in_future by simp
  from i2 [OF v] obtain p' where "get_row (out_store (publish_post fail_env 1 ex_store)) 1 = Some p'"
    and "is_published p' = 1"
    by blast
  then have b: "map_option is_published (get_row (out_store (publish_post fail_env 1 ex_store)) 1) = Some 1"
    by simp
  have d: "due_posts fail_env ex_store = [ex_post]"
    by (simp add: due_posts_fail_env due_posts_ex_store)
  from i4 have f: "sw_fanouts (publish_due_tweets fail_env ex_store) = [1]"
    by (simp add: d u)
  have m: "ex_post \<in> set (due_posts fail_env ex_store)"
    by (simp add: d)
  from i5 [OF m] u(3) have "\<exists>q' \<in> set (rows (sw_store (publish_due_tweets fail_env ex_store))).
         post_id q' = 1 \<and> is_published q' = 1"
    by metis
  with g a1 a v b d f show ?thesis by (intro conjI)
qed

text \<open>
  Claim C2. A \<open>platforms\<close> argument keyed by the platform names, the shape both
  callers build, makes the coordinator invoke no client and return an empty result map,
  whatever the flag values: it looks the flags up under \<open>publish_to_<name>\<close> with
  default \<open>False\<close>. So publish-now never invokes a client, and when it succeeds the
  post has \<open>is_published = 1\<close> and all four per-platform ids null; the sweep never
  invokes a client either, and every due post ends with \<open>is_published = 1\<close> and all
  four ids null.
\<close>

theorem C2_platform_name_keys_reach_no_client:
  "(dom platforms \<subseteq> {''twitter'', ''instagram'', ''facebook'', ''pinterest''} \<longrightarrow>
      post_to_platforms cl c i platforms = Inr \<lparr>results = Map.empty, calls = []\<rparr>)
   \<and> dom (platforms_of p) \<subseteq> {''twitter'', ''instagram'', ''facebook'', ''pinterest''}
   \<and> out_calls (publish_post e j s) = []
   \<and> (\<forall>v. out_response (publish_post e j s) = Inr v \<longrightarrow>
         snd v = Map.empty
         \<and> (\<exists>p'. get_row (out_store (publish_post e j s)) j = Some p'
                \<and> is_published p' = 1
                \<and> twitter_post_id p' = None \<and> instagram_post_id p' = None
                \<and> facebook_post_id p' = None \<and> pinterest_post_id p' = None))
   \<and> sw_calls (publish_due_tweets e s) = []
   \<and> (\<forall>q \<in> set (due_posts e s).
         (\<exists>q' \<in> set (rows (sw_store (publish_due_tweets e s))). post_id q' = post_id q)
         \<and> (\<forall>q' \<in> set (rows (sw_store (publish_due_tweets e s))).
               post_id q' = post_id q \<longrightarrow>
               is_published q' = 1
               \<and> twitter_post_id q' = None \<and> instagram_post_id q' = None
               \<and> facebook_post_id q' = None \<and> pinterest_post_id q' = None))"
proof -
  have a: "dom platforms \<subseteq> {''twitter'', ''instagram'', ''facebook'', ''pinterest''} \<longrightarrow>
      post_to_platforms cl c i platforms = Inr \<lparr>results = Map.empty, calls = []\<rparr>"
    by (simp add: post_to_platforms_short_keys)
  have b: "\<forall>v. out_response (publish_post e j s) = Inr v \<longrightarrow>
         snd v = Map.empty
         \<and> (\<exists>p'. get_row (out_store (publish_post e j s)) j = Some p'
                \<and> is_published p' = 1
                \<and> twitter_post_id p' = None \<and> instagram_post_id p' = None
                \<and> facebook_post_id p' = None \<and> pinterest_post_id p' = None)"
  proof (intro allI impI)
    fix v assume v: "out_response (publish_post e j s) = Inr v"
    from publish_post_Inr [OF v] have "snd v = Map.empty"
      by auto
    with publish_post_row [OF v]
    show "snd v = Map.empty
         \<and> (\<exists>p'. get_row (out_store (publish_post e j s)) j = Some p'
                \<and> is_published p' = 1
                \<and> twitter_post_id p' = None \<and> instagram_post_id p' = None
                \<and> facebook_post_id p' = None \<and> pinterest_post_id p' = None)"
      by (auto simp: results_get_def)
  qed
  have c: "\<forall>q \<in> set (due_posts e s).
         (\<exists>q' \<in> set (rows (sw_store (publish_due_tweets e s))). post_id q' = post_id q)
         \<and> (\<forall>q' \<in> set (rows (sw_store (publish_due_tweets e s))).
               post_id q' = post_id q \<longrightarrow>
               is_published q' = 1
               \<and> twitter_post_id q' = None \<and> instagram_post_id q' = None
               \<and> facebook_post_id q' = None \<and> pinterest_post_id q' = None)"
  proof (intro ballI conjI impI)
    fix q assume q: "q \<in> set (due_posts e s)"
    from due_post_swept [OF q]
    show "\<exists>q' \<in> set (rows (sw_store (publish_due_tweets e s))). post_id q' = post_id q"
      by (rule bexI [rotated]) simp
  next
    fix q q'
    assume *: "q \<in> set (due_posts e s)" "q' \<in> set (rows (sw_store (publish_due_tweets e s)))"
      "post_id q' = post_id q"
    from swept_row_published [OF *]
    show "is_published q' = 1" "twitter_post_id q' = None" "instagram_post_id q' = None"
      "facebook_post_id q' = None" "pinterest_post_id q' = None"
      by (auto simp: published_null_def)
  qed
  have d: "sw_calls (publish_due_tweets e s) = []"
    by (simp add: publish_due_tweets_eq)
  from a dom_platforms_of [of p] out_calls_publish_post [of e j s] b d c
  show ?thesis by (intro conjI)
qed

theorem C2_witness:
  "dom (platforms_of ex_post) \<subseteq> {''twitter'', ''instagram'', ''facebook'', ''pinterest''}
   \<and> publish_to_twitter ex_post = Some True
   \<and> post_to_platforms ex_clients (Some ''hello'') (Some ''http://img/1.png'') (platforms_of ex_post)
       = Inr \<lparr>results = Map.empty, calls = []\<rparr>
   \<and> out_calls (publish_post ex_env 1 ex_store) = []
   \<and> out_response (publish_post ex_env 1 ex_store) = Inr (ex_post, Map.empty)
   \<and> map_option is_published (get_row (out_store (publish_post ex_env 1 ex_store)) 1) = Some 1
   \<and> map_option twitter_post_id (get_row (out_store (publish_post ex_env 1 ex_store)) 1) = Some None
   \<and> sw_calls (publish_due_tweets ex_env ex_store) = []
   \<and> due_posts ex_env ex_store = [ex_post]
   \<and> (\<exists>q' \<in> set (rows (sw_store (publish_due_tweets ex_env ex_store))).
         post_id q' = 1 \<and> is_published q' = 1 \<and> twitter_post_id q' = None
         \<and> facebook_post_id q' = None)"
proof -
  note inst = C2_platform_name_keys_reach_no_client
    [of "platforms_of ex_post" ex_clients "Some ''hello''" "Some ''http://img/1.png''"
        ex_post ex_env 1 ex_store]
  note i1 = inst [THEN conjunct1, rule_format]
  note i2 = inst [THEN conjunct2, THEN conjunct1]
  note i3 = inst [THEN conjunct2, THEN conjunct2, THEN conjunct1]
  note i4 = inst [THEN conjunct2, THEN conjunct2, THEN conjunct2, THEN conjunct1, rule_format]
  note i5 = inst [THEN conjunct2, THEN conjunct2, THEN conjunct2, THEN conjunct2, THEN conjunct1]
  note i6 = inst [THEN conjunct2, THEN conjunct2, THEN conjunct2, THEN conjunct2, THEN conjunct2,
                  rule_format]
  have g: "get_row ex_store 1 = Some ex_post"
    by (rule get_row_examples)
  have u: "is_published ex_post = 0" "is_draft ex_post = 0" "post_id ex_post = 1"
    "publish_to_twitter ex_post = Some True"
    by (simp_all add: ex_post_def)
  have v: "out_response (publish_post ex_env 1 ex_store) = Inr (ex_post, Map.empty)"
    using publish_post_fanout [OF g u(1), of ex_env] ex_post_not_in_future by simp
  note p = i1 [OF i2]
  from i4 [OF v] obtain p' where "get_row (out_store (publish_post ex_env 1 ex_store)) 1 = Some p'"
    and "is_published p' = 1" and "twitter_post_id p' = None"
    by blast
  then have r: "map_option is_published (get_row (out_store (publish_post ex_env 1 ex_store)) 1) = Some 1"
    "map_option twitter_post_id (get_row (out_store (publish_post ex_env 1 ex_store)) 1) = Some None"
    by simp_all
  have m: "ex_post \<in> set (due_posts ex_env ex_store)"
    by (simp add: due_posts_ex_store)
  from i6 [OF m] u(3) have "\<exists>q' \<in> set (rows (sw_store (publish_due_tweets ex_env ex_store))).
         post_id q' = 1 \<and> is_published q' = 1 \<and> twitter_post_id q' = None
         \<and> facebook_post_id q' = None"
    by metis
  with i2 u(4) p i3 v r i5 due_posts_ex_store show ?thesis by (intro conjI)
qed

section \<open>Operations on a published post\<close>

lemma publication_kept_refl: "publication_kept p p"
  by (simp add: publication_kept_def)

lemma publication_kept_trans:
  "publication_kept p q \<Longrightarrow> publication_kept q r \<Longrightarrow> publication_kept p r"
  by (simp add: publication_kept_def)

lemma kept_update_where_id:
  assumes f: "\<And>p. publication_kept p (f p)" and g: "get_row s i = Some p"
  shows "\<exists>p'. get_row (update_where_id j f s) i = Some p' \<and> publication_kept p p'"
proof -
  have "\<And>p. post_id (f p) = post_id p"
    using f by (simp add: publication_kept_def)
  then have "get_row (update_where_id j f s) i = Some (if post_id p = j then f p else p)"
    by (simp add: get_row_update_where_id g)
  moreover have "publication_kept p (if post_id p = j then f p else p)"
    by (simp add: f publication_kept_refl)
  ultimately show ?thesis by blast
qed

lemma kept_either:
  assumes "\<And>p. publication_kept p (f p)" and "get_row s i = Some p"
    and "s' = s \<or> s' = update_where_id j f s"
  shows "\<exists>p'. get_row s' i = Some p' \<and> publication_kept p p'"
  using assms(3)
proof
  assume "s' = s"
  with assms(2) show ?thesis by (auto intro: publication_kept_refl)
next
  assume "s' = update_where_id j f s"
  with kept_update_where_id [of f s i p j, OF assms(1,2)] show ?thesis by simp
qed

lemma fst_update_post:
  "fst (update_post e j req s) = s \<or>
   fst (update_post e j req s) =
      update_where_id j
        (\<lambda>p. p\<lparr>content := Some (or_empty (req_content req)),
                image_url := Some (or_empty (req_image_url req)),
                scheduled_time :=
                  (case req_scheduled_time req of
                     None \<Rightarrow> None
                   | Some t \<Rightarrow> Some (isoformat (replace_chicago e t))),
                updated_at := current_timestamp e,
                publish_to_twitter := req_publish_to_twitter req,
                publish_to_instagram := req_publish_to_instagram req,
                publish_to_facebook := req_publish_to_facebook req,
                publish_to_pinterest := req_publish_to_pinterest req\<rparr>) s"
  unfolding update_post_def Let_def
  by (cases "get_row s j") (simp_all split: option.splits)

lemma fst_update_draft:
  "fst (update_draft e j req s) = s \<or>
   fst (update_draft e j req s) =
      update_where_id j
        (\<lambda>p. p\<lparr>content := Some (or_empty (req_content req)),
                image_url := Some (or_empty (req_image_url req)),
                scheduled_time :=
                  (case req_scheduled_time req of
                     None \<Rightarrow> None
                   | Some t \<Rightarrow> Some (isoformat (replace_chicago e t))),
                updated_at := current_timestamp e\<rparr>) s"
  unfolding update_draft_def Let_def
  by (cases "get_row s j") (simp_all split: option.splits)

lemma fst_cancel_post:
  "fst (cancel_post e j s) = s \<or>
   fst (cancel_post e j s) =
      update_where_id j (\<lambda>p. p\<lparr>is_canceled := 1, updated_at := current_timestamp e\<rparr>) s"
  unfolding cancel_post_def
  by (cases "get_row s j") simp_all

lemma fst_uncancel_post:
  "fst (uncancel_post e j s) = s \<or>
   fst (uncancel_post e j s) =
      update_where_id j (\<lambda>p. p\<lparr>is_canceled := 0, updated_at := current_timestamp e\<rparr>) s"
  unfolding uncancel_post_def
  by (cases "get_row s j") simp_all

lemma fst_schedule_post:
  "fst (schedule_post e j d s) = s \<or>
   fst (schedule_post e j d s) =
      update_where_id j
        (\<lambda>p. p\<lparr>scheduled_time :=
                  (case d of
                     TimeText t \<Rightarrow>
                       (case astimezone_chicago e (fromisoformat t) of
                          Inr scheduled_cst \<Rightarrow> Some (isoformat scheduled_cst)
                        | Inl ex \<Rightarrow> None)
                   | _ \<Rightarrow> None),
                is_draft := 0, updated_at := current_timestamp e\<rparr>) s"
  unfolding schedule_post_def Let_def
  by (cases "get_row s j"; cases d) (simp_all split: option.splits sum.splits)

lemma run_operation_kept:
  assumes "get_row s i = Some p"
  shows "\<exists>p'. get_row (run_operation e op s) i = Some p' \<and> publication_kept p p'"
proof (cases op)
  case (Update j req)
  show ?thesis
    unfolding Update run_operation.simps
    by (rule kept_either [OF _ assms fst_update_post]) (simp add: publication_kept_def)
next
  case (UpdateDraft j req)
  show ?thesis
    unfolding UpdateDraft run_operation.simps
    by (rule kept_either [OF _ assms fst_update_draft]) (simp add: publication_kept_def)
next
  case (Cancel j)
  show ?thesis
    unfolding Cancel run_operation.simps
    by (rule kept_either [OF _ assms fst_cancel_post]) (simp add: publication_kept_def)
next
  case (Uncancel j)
  show ?thesis
    unfolding Uncancel run_operation.simps
    by (rule kept_either [OF _ assms fst_uncancel_post]) (simp add: publication_kept_def)
next
  case (Schedule j d)
  show ?thesis
    unfolding Schedule run_operation.simps
    by (rule kept_either [OF _ assms fst_schedule_post]) (simp add: publication_kept_def)
qed

lemma run_operations_kept:
  assumes "get_row s i = Some p"
  shows "\<exists>p'. get_row (run_operations ops s) i = Some p' \<and> publication_kept p p'"
  using assms
proof (induction ops arbitrary: s p)
  case Nil
  then show ?case by (auto intro: publication_kept_refl)
next
  case (Cons x ops)
  obtain e op where x: "x = (e, op)" by (cases x)
  from run_operation_kept [OF Cons.prems, of e op] obtain q where
    q: "get_row (run_operation e op s) i = Some q" and pq: "publication_kept p q"
    by blast
  from Cons.IH [OF q] obtain r where
    r: "get_row (run_operations ops (run_operation e op s)) i = Some r"
    and qr: "publication_kept q r"
    by blast
  from publication_kept_trans [OF pq qr] r x show ?case by simp
qed

lemma published_post_fields:
  "is_published published_post = 1" "content published_post = Some ''hello''"
  "is_canceled published_post = 0" "twitter_post_id published_post = Some ''123''"
  "post_id published_post = 1"
  by (simp_all add: published_post_def ex_post_def)

text \<open>
  Claim C8 as stated (a published post is immutable under update, cancel, uncancel,
  schedule and draft-update) fails: none of these operations looks at
  \<open>is_published\<close>. On a published post, update replaces the content and cancel sets
  \<open>is_canceled\<close>.
\<close>

theorem C8_counterexample:
  "get_row published_store 1 = Some published_post
   \<and> is_published published_post = 1
   \<and> content published_post = Some ''hello''
   \<and> is_canceled published_post = 0
   \<and> map_option content (get_row (fst (update_post ex_env 1 edit_req published_store)) 1)
       = Some (Some ''edited'')
   \<and> map_option is_canceled (get_row (fst (cancel_post ex_env 1 published_store)) 1)
       = Some 1"
proof -
  note g = get_row_examples(3)
  have u: "fst (update_post ex_env 1 edit_req published_store) =
      update_where_id 1
        (\<lambda>p. p\<lparr>content := Some (or_empty (req_content edit_req)),
                image_url := Some (or_empty (req_image_url edit_req)),
                scheduled_time := None,
                updated_at := current_timestamp ex_env,
                publish_to_twitter := req_publish_to_twitter edit_req,
                publish_to_instagram := req_publish_to_instagram edit_req,
                publish_to_facebook := req_publish_to_facebook edit_req,
                publish_to_pinterest := req_publish_to_pinterest edit_req\<rparr>) published_store"
    unfolding update_post_def Let_def
    by (simp add: g edit_req_def split: option.splits)
  have c: "fst (cancel_post ex_env 1 published_store) =
      update_where_id 1
        (\<lambda>p. p\<lparr>is_canceled := 1, updated_at := current_timestamp ex_env\<rparr>) published_store"
    unfolding cancel_post_def by (simp add: g)
  have a: "map_option content (get_row (fst (update_post ex_env 1 edit_req published_store)) 1)
       = Some (Some ''edited'')"
    unfolding u
    by (subst get_row_update_same [OF _ g]) (simp_all add: edit_req_def)
  have b: "map_option is_canceled (get_row (fst (cancel_post ex_env 1 published_store)) 1)
       = Some 1"
    unfolding c
    by (subst get_row_update_same [OF _ g]) simp_all
  from g published_post_fields(1,2,3) a b show ?thesis by (intro conjI)
qed

lemma publish_post_published:
  assumes "get_row s i = Some post" and "is_published post \<noteq> 0"
  shows "publish_post e i s =
     \<lparr>out_store = s, out_calls = [],
      out_response =
        Inl (HTTPException 500 ''Failed to publish post: 400: Post is already published'')\<rparr>"
proof -
  have n: "show_nat 400 = ''400''"
    by simp
  show ?thesis
    unfolding publish_post_def publish_post_body_published [OF assms]
    by (simp add: n)
qed

text \<open>
  Claim C8, amended. For every post with \<open>is_published = 1\<close> and every run of update,
  draft-update, cancel, uncancel and schedule operations, on any posts and in any
  environments, the post is still there with \<open>is_published = 1\<close> and with its id, its
  four per-platform ids, its creation time and its engagement score unchanged; and
  publish-now on it is rejected: it raises (the 400 for an already published post,
  surfacing as a 500), invokes no platform client and leaves the store as it is.
\<close>

theorem C8_published_post_keeps_publication_fields:
  assumes "get_row s i = Some p" and "is_published p = 1"
  shows "(\<exists>p'. get_row (run_operations ops s) i = Some p'
            \<and> is_published p' = 1 \<and> post_id p' = post_id p
            \<and> twitter_post_id p' = twitter_post_id p
            \<and> instagram_post_id p' = instagram_post_id p
            \<and> facebook_post_id p' = facebook_post_id p
            \<and> pinterest_post_id p' = pinterest_post_id p
            \<and> created_at p' = created_at p
            \<and> engagement_score p' = engagement_score p)
       \<and> out_store (publish_post e i s) = s
       \<and> out_calls (publish_post e i s) = []
       \<and> out_response (publish_post e i s) =
           Inl (HTTPException 500 ''Failed to publish post: 400: Post is already published'')"
proof -
  from run_operations_kept [OF assms(1), of ops] obtain p' where
    "get_row (run_operations ops s) i = Some p'" and "publication_kept p p'"
    by blast
  moreover from assms(2) have "is_published p \<noteq> 0"
    by simp
  note publish_post_published [OF assms(1) this, of e]
  ultimately show ?thesis
    using assms(2) by (auto simp: publication_kept_def)
qed

theorem C8_witness:
  "get_row published_store 1 = Some published_post
   \<and> is_published published_post = 1
   \<and> map_option is_published
        (get_row (run_operations [(ex_env, Update 1 edit_req), (ex_env, Cancel 1)]
           published_store) 1) = Some 1
   \<and> map_option twitter_post_id
        (get_row (run_operations [(ex_env, Update 1 edit_req), (ex_env, Cancel 1)]
           published_store) 1) = Some (Some ''123'')
   \<and> out_store (publish_post ex_env 1 published_store) = published_store
   \<and> out_calls (publish_post ex_env 1 published_store) = []
   \<and> out_response (publish_post ex_env 1 published_store) =
       Inl (HTTPException 500 ''Failed to publish post: 400: Post is already published'')"
proof -
  note inst = C8_published_post_keeps_publication_fields
    [OF get_row_examples(3) published_post_fields(1),
     of "[(ex_env, Update 1 edit_req), (ex_env, Cancel 1)]" ex_env]
  from inst [THEN conjunct1] obtain p' where
    "get_row (run_operations [(ex_env, Update 1 edit_req), (ex_env, Cancel 1)]
           published_store) 1 = Some p'"
    and "is_published p' = 1" and "twitter_post_id p' = twitter_post_id published_post"
    by blast
  then have "map_option is_published
        (get_row (run_operations [(ex_env, Update 1 edit_req), (ex_env, Cancel 1)]
           published_store) 1) = Some 1"
    and "map_option twitter_post_id
        (get_row (run_operations [(ex_env, Update 1 edit_req), (ex_env, Cancel 1)]
           published_store) 1) = Some (Some ''123'')"
    by (simp_all add: published_post_fields)
  with get_row_examples(3) published_post_fields(1)
    inst [THEN conjunct2, THEN conjunct1]
    inst [THEN conjunct2, THEN conjunct2, THEN conjunct1]
    inst [THEN conjunct2, THEN conjunct2, THEN conjunct2]
  show ?thesis by (intro conjI)
qed

section \<open>Creating a scheduled post\<close>

lemma max_id_ge: "p \<in> set ps \<Longrightarrow> post_id p \<le> max_id ps"
  by (induction ps) auto

lemma find_append_fresh:
  assumes "\<And>p. p \<in> set xs \<Longrightarrow> \<not> P p" and "P y"
  shows "find P (xs @ [y]) = Some y"
  using assms by (induction xs) auto

lemma get_row_appended:
  assumes "post_id row = max (seq s) (max_id (rows s)) + 1"
  shows "get_row \<lparr>rows = rows s @ [row], seq = k\<rparr> (post_id row) = Some row"
proof -
  have "post_id p \<noteq> post_id row" if "p \<in> set (rows s)" for p
    using max_id_ge [OF that] assms by simp
  then show ?thesis
    unfolding get_row_def by (simp add: find_append_fresh)
qed

lemma to_cst_offset:
  "to_cst e (Some (IsoText w (Some off))) =
     (if convertible e (w - off)
      then Inr (IsoText (w - off + chicago_at_utc e (w - off))
                  (Some (chicago_at_utc e (w - off))))
      else Inl (OverflowError ''date value out of range''))"
  by (simp add: to_cst_def fromisoformat_def astimezone_chicago_def utc_to_chicago_def
        isoformat_def convertible_def bind_exn_def Let_def)

lemma submitted_instant_chicago_reading:
  "chicago_reading e t \<Longrightarrow> submitted_instant e t = wall t - chicago_at_wall e (wall t)"
  by (auto simp: chicago_reading_def submitted_instant_def split: option.splits)

lemma create_scheduled_post_absent:
  assumes "req_scheduled_time req = None"
  shows "create_scheduled_post e req s = (s, Inl (HTTPException 400 ''Scheduled time is required''))"
  unfolding create_scheduled_post_def by (simp add: assms)

lemma create_scheduled_post_not_future:
  assumes "req_scheduled_time req = Some t" and "wall t \<le> wall (now_chicago e)"
  shows "create_scheduled_post e req s =
           (s, Inl (HTTPException 400 ''Scheduled time must be in the future (CST)''))"
  unfolding create_scheduled_post_def Let_def
  using assms(2) by (simp add: assms(1) replace_chicago_def)

lemma create_scheduled_post_generation_fails:
  assumes "req_scheduled_time req = Some t" and "wall (now_chicago e) < wall t"
    and "falsy (req_content req)" and "generate_post_text e = Inl ex"
  shows "create_scheduled_post e req s = (s, Inl ex)"
  unfolding create_scheduled_post_def Let_def
  using assms(2) by (simp add: assms(1,3,4) replace_chicago_def)

lemma create_scheduled_post_inserts:
  assumes "req_scheduled_time req = Some t" and "wall (now_chicago e) < wall t"
    and "if falsy (req_content req) then generate_post_text e = Inr body
         else req_content req = Some body"
  shows "create_scheduled_post e req s =
           (\<lparr>rows = rows s @ [new_row e req s t body], seq = post_id (new_row e req s t body)\<rparr>,
            case to_cst e (scheduled_time (new_row e req s t body)) of
              Inl ex \<Rightarrow> Inl ex
            | Inr shown \<Rightarrow> Inr ((new_row e req s t body)\<lparr>scheduled_time := Some shown\<rparr>))"
proof -
  have c: "(if falsy (req_content req) then generate_post_text e
            else Inr (or_empty (req_content req))) = Inr body"
    using assms(3) by (auto split: if_splits)
  have n: "post_id (new_row e req s t body) = max (seq s) (max_id (rows s)) + 1"
    by (simp add: new_row_def)
  have g: "get_row \<lparr>rows = rows s @ [new_row e req s t body],
                   seq = max (seq s) (max_id (rows s)) + 1\<rparr>
             (max (seq s) (max_id (rows s)) + 1) = Some (new_row e req s t body)"
    using get_row_appended [OF n] by (simp add: n)
  have w: "\<not> wall (replace_chicago e t) \<le> wall (now_chicago e)"
    using assms(2) by (simp add: replace_chicago_def)
  show ?thesis
    unfolding create_scheduled_post_def Let_def
    by (simp add: assms(1) w c new_row_def [symmetric] g n split: sum.splits)
qed

lemma new_row_fields:
  "content (new_row e req s t body) = Some body"
  "is_draft (new_row e req s t body) = 0"
  "is_published (new_row e req s t body) = 0"
  "is_canceled (new_row e req s t body) = 0"
  "post_id (new_row e req s t body) = max (seq s) (max_id (rows s)) + 1"
  "scheduled_time (new_row e req s t body) =
     Some (IsoText (wall t) (Some (chicago_at_wall e (wall t))))"
  by (simp_all add: new_row_def isoformat_def replace_chicago_def)

lemma to_cst_new_row:
  "to_cst e (scheduled_time (new_row e req s t body)) =
     (if convertible e (wall t - chicago_at_wall e (wall t))
      then Inr (IsoText (wall t - chicago_at_wall e (wall t)
                          + chicago_at_utc e (wall t - chicago_at_wall e (wall t)))
                  (Some (chicago_at_utc e (wall t - chicago_at_wall e (wall t)))))
      else Inl (OverflowError ''date value out of range''))"
  by (simp add: new_row_fields to_cst_offset)

lemma now_wall_ex_env: "wall (now_chicago ex_env) = t_1200"
  by (simp add: now_chicago_def ex_env_def ex_times)

lemma generate_post_text_examples:
  "generate_post_text ex_env = Inr ''fresh tweet''"
  "generate_post_text gen_fail_env = Inl (HTTPException 500 ''model unavailable'')"
  by (simp_all add: generate_post_text_def ex_env_def gen_fail_env_def)

lemma generate_post_text_fails:
  "recipe_bot e = Inl ex \<Longrightarrow> generate_post_text e = Inl (HTTPException 500 (exn_str ex))"
  by (simp add: generate_post_text_def)

text \<open>
  Claim C9 as stated fails at three inputs. With a future time, no content and a failing
  generation pipeline the operation does not succeed: it fails with status 500. A
  \<open>scheduled_time\<close> submitted as 15:00 UTC, three hours before the clock's 18:00 UTC,
  is accepted and stored and read back as 15:00 Chicago time, the instant 21:00 UTC:
  the submitted offset is replaced, not converted. And for 9999-12-31T23:00:00, a
  valid future time, the row is stored but reading it back raises \<open>OverflowError\<close>:
  the instant in UTC lies beyond the last datetime.
\<close>

theorem C9_counterexample:
  "create_scheduled_post gen_fail_env naive_future_req ex_store =
     (ex_store, Inl (HTTPException 500 ''model unavailable''))
   \<and> req_scheduled_time utc_past_req = Some \<lparr>wall = t_1500, tzinfo = Some (FixedOffset 0)\<rparr>
   \<and> submitted_instant ex_env \<lparr>wall = t_1500, tzinfo = Some (FixedOffset 0)\<rparr> = t_1500
   \<and> t_1500 < clock ex_env
   \<and> map_sum id (\<lambda>r. map_option text_instant (scheduled_time r))
        (snd (create_scheduled_post ex_env utc_past_req ex_store)) = Inr (Some (Some t_2100))
   \<and> map_option (\<lambda>r. map_option text_instant (scheduled_time r))
        (get_row (fst (create_scheduled_post ex_env utc_past_req ex_store)) 3)
       = Some (Some (Some t_2100))
   \<and> req_scheduled_time last_hour_req = Some \<lparr>wall = w_last_hour, tzinfo = None\<rparr>
   \<and> representable w_last_hour
   \<and> wall (now_chicago ex_env) < w_last_hour
   \<and> snd (create_scheduled_post ex_env last_hour_req ex_store)
       = Inl (OverflowError ''date value out of range'')
   \<and> map_option content (get_row (fst (create_scheduled_post ex_env last_hour_req ex_store)) 3)
       = Some (Some ''hello'')"
proof -
  let ?fut = "\<lparr>wall = t_1500, tzinfo = None\<rparr>"
  let ?utc = "\<lparr>wall = t_1500, tzinfo = Some (FixedOffset 0)\<rparr>"
  let ?last = "\<lparr>wall = w_last_hour, tzinfo = None\<rparr>"
  have nw: "wall (now_chicago gen_fail_env) = t_1200"
    by (simp add: now_chicago_def gen_fail_env_def ex_env_def ex_times)
  have a: "create_scheduled_post gen_fail_env naive_future_req ex_store =
     (ex_store, Inl (HTTPException 500 ''model unavailable''))"
    by (rule create_scheduled_post_generation_fails [where t = ?fut])
       (simp_all add: naive_future_req_def nw generate_post_text_examples ex_times)
  have r: "req_scheduled_time utc_past_req = Some ?utc"
    by (simp add: utc_past_req_def)
  have si: "submitted_instant ex_env ?utc = t_1500"
    by (simp add: submitted_instant_def)
  have lt: "t_1500 < clock ex_env"
    by (simp add: ex_env_def ex_times)
  have off: "chicago_at_wall ex_env w = cst" "chicago_at_utc ex_env w = cst" for w
    by (simp_all add: ex_env_def)
  have tt: "t_1500 - cst = t_2100"
    by (simp add: ex_times)
  have cv: "convertible ex_env t_2100"
    by (simp add: convertible_def representable_def max_wall_def off ex_times)
  let ?row = "new_row ex_env utc_past_req ex_store ?utc ''hello''"
  have c: "create_scheduled_post ex_env utc_past_req ex_store =
           (\<lparr>rows = rows ex_store @ [?row], seq = post_id ?row\<rparr>,
            Inr (?row\<lparr>scheduled_time := Some (IsoText (t_2100 + cst) (Some cst))\<rparr>))"
    by (subst create_scheduled_post_inserts [where t = ?utc and body = "''hello''"])
       (simp_all add: utc_past_req_def naive_future_req_def now_wall_ex_env ex_times
          to_cst_new_row off cv [unfolded ex_times])
  have id3: "post_id (new_row ex_env q ex_store t b) = 3" for q t b
    by (simp add: new_row_fields ex_store_def ex_post_def future_post_def)
  have g: "get_row \<lparr>rows = rows ex_store @ [?row], seq = post_id ?row\<rparr> (post_id ?row) = Some ?row"
    by (rule get_row_appended) (simp add: new_row_fields)
  have b1: "map_sum id (\<lambda>r. map_option text_instant (scheduled_time r))
        (snd (create_scheduled_post ex_env utc_past_req ex_store)) = Inr (Some (Some t_2100))"
    by (simp add: c text_instant_def)
  have g3: "get_row (fst (create_scheduled_post ex_env utc_past_req ex_store)) 3 = Some ?row"
    using g unfolding c id3 fst_conv .
  have b2: "map_option (\<lambda>r. map_option text_instant (scheduled_time r))
        (get_row (fst (create_scheduled_post ex_env utc_past_req ex_store)) 3)
       = Some (Some (Some t_2100))"
    by (simp add: g3 new_row_fields off text_instant_def tt)
  have lr: "req_scheduled_time last_hour_req = Some ?last"
    by (simp add: last_hour_req_def)
  have rp: "representable w_last_hour"
    by (simp add: representable_def max_wall_def w_last_hour_def)
  have lw: "wall (now_chicago ex_env) < w_last_hour"
    by (simp add: now_wall_ex_env ex_times w_last_hour_def)
  have ncv: "\<not> convertible ex_env (w_last_hour - cst)"
    by (simp add: convertible_def representable_def max_wall_def w_last_hour_def cst_def)
  let ?lrow = "new_row ex_env last_hour_req ex_store ?last ''hello''"
  have lc: "create_scheduled_post ex_env last_hour_req ex_store =
           (\<lparr>rows = rows ex_store @ [?lrow], seq = post_id ?lrow\<rparr>,
            Inl (OverflowError ''date value out of range''))"
    by (subst create_scheduled_post_inserts [where t = ?last and body = "''hello''"])
       (simp_all add: last_hour_req_def naive_future_req_def lw to_cst_new_row off ncv)
  have lg: "get_row \<lparr>rows = rows ex_store @ [?lrow], seq = post_id ?lrow\<rparr> (post_id ?lrow)
              = Some ?lrow"
    by (rule get_row_appended) (simp add: new_row_fields)
  have lg3: "get_row (fst (create_scheduled_post ex_env last_hour_req ex_store)) 3 = Some ?lrow"
    using lg unfolding lc id3 fst_conv .
  have c1: "snd (create_scheduled_post ex_env last_hour_req ex_store)
       = Inl (OverflowError ''date value out of range'')"
    by (simp add: lc)
  have c2: "map_option content (get_row (fst (create_scheduled_post ex_env last_hour_req ex_store)) 3)
       = Some (Some ''hello'')"
    by (simp add: lg3 new_row_fields)
  from a r si lt b1 b2 lr rp lw c1 c2 show ?thesis by (intro conjI)
qed

text \<open>
  Claim C9, amended. A request without \<open>scheduled_time\<close> fails with a 400 validation
  error and the store is unchanged. For a \<open>scheduled_time\<close> that carries no offset, or
  the offset Chicago has at that reading: if the reading is not strictly later than the
  current Chicago wall-clock time the operation fails with a 400 validation error and
  the store is unchanged; if it is strictly later, content is absent and the generation
  pipeline raises, the operation fails with status 500 and the store is unchanged; if
  it is strictly later, content is present or the generation pipeline returns one, and
  the submitted instant can be converted from UTC to Chicago time within the years
  1 to 9999, the operation succeeds, appends exactly one row (not a draft, not
  published, not canceled, found again under its new id), and both the stored and the
  read-back \<open>scheduled_time\<close> denote the submitted instant.
\<close>

theorem C9_create_scheduled_post_chicago_reading:
  "(req_scheduled_time req = None \<longrightarrow>
      create_scheduled_post e req s = (s, Inl (HTTPException 400 ''Scheduled time is required'')))
   \<and> (\<forall>t. req_scheduled_time req = Some t \<and> chicago_reading e t
            \<and> wall t \<le> wall (now_chicago e) \<longrightarrow>
          create_scheduled_post e req s =
            (s, Inl (HTTPException 400 ''Scheduled time must be in the future (CST)'')))
   \<and> (\<forall>t ex. req_scheduled_time req = Some t \<and> chicago_reading e t
            \<and> wall (now_chicago e) < wall t
            \<and> falsy (req_content req) \<and> recipe_bot e = Inl ex \<longrightarrow>
          create_scheduled_post e req s = (s, Inl (HTTPException 500 (exn_str ex))))
   \<and> (\<forall>t body. req_scheduled_time req = Some t \<and> chicago_reading e t
            \<and> wall (now_chicago e) < wall t
            \<and> (if falsy (req_content req) then generate_post_text e = Inr body
                else req_content req = Some body)
            \<and> convertible e (submitted_instant e t) \<longrightarrow>
          (\<exists>row shown.
             create_scheduled_post e req s =
               (\<lparr>rows = rows s @ [row], seq = post_id row\<rparr>,
                Inr (row\<lparr>scheduled_time := Some shown\<rparr>))
             \<and> get_row \<lparr>rows = rows s @ [row], seq = post_id row\<rparr> (post_id row) = Some row
             \<and> content row = Some body
             \<and> is_draft row = 0 \<and> is_published row = 0 \<and> is_canceled row = 0
             \<and> map_option text_instant (scheduled_time row) = Some (Some (submitted_instant e t))
             \<and> text_instant shown = Some (submitted_instant e t)))"
proof -
  have a: "req_scheduled_time req = None \<longrightarrow>
      create_scheduled_post e req s = (s, Inl (HTTPException 400 ''Scheduled time is required''))"
    by (simp add: create_scheduled_post_absent)
  have b: "\<forall>t. req_scheduled_time req = Some t \<and> chicago_reading e t
            \<and> wall t \<le> wall (now_chicago e) \<longrightarrow>
          create_scheduled_post e req s =
            (s, Inl (HTTPException 400 ''Scheduled time must be in the future (CST)''))"
    by (simp add: create_scheduled_post_not_future)
  have c: "\<forall>t ex. req_scheduled_time req = Some t \<and> chicago_reading e t
            \<and> wall (now_chicago e) < wall t
            \<and> falsy (req_content req) \<and> recipe_bot e = Inl ex \<longrightarrow>
          create_scheduled_post e req s = (s, Inl (HTTPException 500 (exn_str ex)))"
    by (auto intro: create_scheduled_post_generation_fails generate_post_text_fails)
  have d: "\<forall>t body. req_scheduled_time req = Some t \<and> chicago_reading e t
            \<and> wall (now_chicago e) < wall t
            \<and> (if falsy (req_content req) then generate_post_text e = Inr body
                else req_content req = Some body)
            \<and> convertible e (submitted_instant e t) \<longrightarrow>
          (\<exists>row shown.
             create_scheduled_post e req s =
               (\<lparr>rows = rows s @ [row], seq = post_id row\<rparr>,
                Inr (row\<lparr>scheduled_time := Some shown\<rparr>))
             \<and> get_row \<lparr>rows = rows s @ [row], seq = post_id row\<rparr> (post_id row) = Some row
             \<and> content row = Some body
             \<and> is_draft row = 0 \<and> is_published row = 0 \<and> is_canceled row = 0
             \<and> map_option text_instant (scheduled_time row) = Some (Some (submitted_instant e t))
             \<and> text_instant shown = Some (submitted_instant e t))"
  proof (intro allI impI)
    fix t body
    assume h: "req_scheduled_time req = Some t \<and> chicago_reading e t
            \<and> wall (now_chicago e) < wall t
            \<and> (if falsy (req_content req) then generate_post_text e = Inr body
                else req_content req = Some body)
            \<and> convertible e (submitted_instant e t)"
    let ?row = "new_row e req s t body"
    let ?u = "wall t - chicago_at_wall e (wall t)"
    let ?shown = "IsoText (?u + chicago_at_utc e ?u) (Some (chicago_at_utc e ?u))"
    from h have si: "submitted_instant e t = ?u"
      by (simp add: submitted_instant_chicago_reading)
    with h have cv: "convertible e ?u"
      by simp
    from h have "create_scheduled_post e req s =
           (\<lparr>rows = rows s @ [?row], seq = post_id ?row\<rparr>,
            case to_cst e (scheduled_time ?row) of
              Inl ex \<Rightarrow> Inl ex
            | Inr shown \<Rightarrow> Inr (?row\<lparr>scheduled_time := Some shown\<rparr>))"
      by (intro create_scheduled_post_inserts) simp_all
    then have c: "create_scheduled_post e req s =
               (\<lparr>rows = rows s @ [?row], seq = post_id ?row\<rparr>,
                Inr (?row\<lparr>scheduled_time := Some ?shown\<rparr>))"
      by (simp add: to_cst_new_row cv)
    have g: "get_row \<lparr>rows = rows s @ [?row], seq = post_id ?row\<rparr> (post_id ?row) = Some ?row"
      by (rule get_row_appended) (simp add: new_row_fields)
    have st: "map_option text_instant (scheduled_time ?row) = Some (Some (submitted_instant e t))"
      by (simp add: new_row_fields si text_instant_def)
    have sh: "text_instant ?shown = Some (submitted_instant e t)"
      by (simp add: si text_instant_def)
    from c g st sh
    show "\<exists>row shown.
             create_scheduled_post e req s =
               (\<lparr>rows = rows s @ [row], seq = post_id row\<rparr>,
                Inr (row\<lparr>scheduled_time := Some shown\<rparr>))
             \<and> get_row \<lparr>rows = rows s @ [row], seq = post_id row\<rparr> (post_id row) = Some row
             \<and> content row = Some body
             \<and> is_draft row = 0 \<and> is_published row = 0 \<and> is_canceled row = 0
             \<and> map_option text_instant (scheduled_time row) = Some (Some (submitted_instant e t))
             \<and> text_instant shown = Some (submitted_instant e t)"
      by (intro exI [of _ ?row] exI [of _ ?shown]) (simp add: new_row_fields)
  qed
  from a b c d show ?thesis by (intro conjI)
qed

theorem C9_witness:
  "create_scheduled_post ex_env edit_req ex_store =
     (ex_store, Inl (HTTPException 400 ''Scheduled time is required''))
   \<and> create_scheduled_post ex_env naive_past_req ex_store =
       (ex_store, Inl (HTTPException 400 ''Scheduled time must be in the future (CST)''))
   \<and> create_scheduled_post gen_fail_env naive_future_req ex_store =
       (ex_store, Inl (HTTPException 500 ''model unavailable''))
   \<and> convertible ex_env t_2100
   \<and> (\<exists>row shown.
         create_scheduled_post ex_env naive_future_req ex_store =
           (\<lparr>rows = rows ex_store @ [row], seq = post_id row\<rparr>,
            Inr (row\<lparr>scheduled_time := Some shown\<rparr>))
         \<and> content row = Some ''fresh tweet''
         \<and> is_draft row = 0
         \<and> map_option text_instant (scheduled_time row) = Some (Some t_2100)
         \<and> text_instant shown = Some t_2100)"
proof -
  let ?past = "\<lparr>wall = t_1000, tzinfo = None\<rparr>"
  let ?fut = "\<lparr>wall = t_1500, tzinfo = None\<rparr>"
  have a: "create_scheduled_post ex_env edit_req ex_store =
     (ex_store, Inl (HTTPException 400 ''Scheduled time is required''))"
    using C9_create_scheduled_post_chicago_reading [of edit_req ex_env ex_store, THEN conjunct1]
    by (simp add: edit_req_def)
  have "req_scheduled_time naive_past_req = Some ?past \<and> chicago_reading ex_env ?past
            \<and> wall ?past \<le> wall (now_chicago ex_env)"
    by (simp add: naive_past_req_def naive_future_req_def chicago_reading_def now_wall_ex_env
          ex_times)
  with C9_create_scheduled_post_chicago_reading [of naive_past_req ex_env ex_store,
         THEN conjunct2, THEN conjunct1, rule_format, of ?past]
  have b: "create_scheduled_post ex_env naive_past_req ex_store =
       (ex_store, Inl (HTTPException 400 ''Scheduled time must be in the future (CST)''))"
    by blast
  have "req_scheduled_time naive_future_req = Some ?fut \<and> chicago_reading gen_fail_env ?fut
            \<and> wall (now_chicago gen_fail_env) < wall ?fut
            \<and> falsy (req_content naive_future_req)
            \<and> recipe_bot gen_fail_env = Inl (Exception ''model unavailable'')"
    by (simp add: naive_future_req_def chicago_reading_def now_chicago_def gen_fail_env_def
          ex_env_def ex_times)
  from C9_create_scheduled_post_chicago_reading [of naive_future_req gen_fail_env ex_store,
         THEN conjunct2, THEN conjunct2, THEN conjunct1, rule_format, OF this]
  have c: "create_scheduled_post gen_fail_env naive_future_req ex_store =
       (ex_store, Inl (HTTPException 500 ''model unavailable''))"
    by simp
  have si: "submitted_instant ex_env ?fut = t_2100"
    by (simp add: submitted_instant_def ex_env_def ex_times)
  have cv: "convertible ex_env t_2100"
    by (simp add: convertible_def representable_def max_wall_def ex_env_def ex_times)
  have "req_scheduled_time naive_future_req = Some ?fut \<and> chicago_reading ex_env ?fut
            \<and> wall (now_chicago ex_env) < wall ?fut
            \<and> (if falsy (req_content naive_future_req)
                then generate_post_text ex_env = Inr ''fresh tweet''
                else req_content naive_future_req = Some ''fresh tweet'')
            \<and> convertible ex_env (submitted_instant ex_env ?fut)"
    by (simp add: naive_future_req_def chicago_reading_def now_wall_ex_env
          generate_post_text_examples si cv) (simp add: ex_times)
  from C9_create_scheduled_post_chicago_reading [of naive_future_req ex_env ex_store,
         THEN conjunct2, THEN conjunct2, THEN conjunct2, rule_format, OF this]
  obtain row shown where
    "create_scheduled_post ex_env naive_future_req ex_store =
           (\<lparr>rows = rows ex_store @ [row], seq = post_id row\<rparr>,
            Inr (row\<lparr>scheduled_time := Some shown\<rparr>))"
    and "content row = Some ''fresh tweet''" and "is_draft row = 0"
    and "map_option text_instant (scheduled_time row) = Some (Some (submitted_instant ex_env ?fut))"
    and "text_instant shown = Some (submitted_instant ex_env ?fut)"
    by blast
  then have "\<exists>row shown.
         create_scheduled_post ex_env naive_future_req ex_store =
           (\<lparr>rows = rows ex_store @ [row], seq = post_id row\<rparr>,
            Inr (row\<lparr>scheduled_time := Some shown\<rparr>))
         \<and> content row = Some ''fresh tweet''
         \<and> is_draft row = 0
         \<and> map_option text_instant (scheduled_time row) = Some (Some t_2100)
         \<and> text_instant shown = Some t_2100"
    unfolding si by blast
  with a b c cv show ?thesis by (intro conjI)
qed

end
